theory Spec2Isabelle
  imports Complex_Main "HOL-Library.Product_Lexorder"
begin

section \<open>Python and numpy floating-point values\<close>

text \<open>
  A Python \<open>float\<close> (and a \<open>numpy.float64\<close>) is a finite number, one of the two
  infinities, or NaN. Finite arithmetic in double precision is idealised: it is exact
  arithmetic on the reals and never overflows; the sign of a zero is not tracked (every
  zero is \<open>+0.0\<close>). The special values follow IEEE 754 as numpy computes them: no
  operation below raises, a division by zero yields an infinity or NaN, and every
  comparison with NaN is false. The rounding to single precision of the tensor that
  \<open>encode\<close> returns is modelled (\<open>to_float32\<close> below).
\<close>

datatype pyfloat = Fin real | PInf | NInf | NaN

fun isnan :: "pyfloat \<Rightarrow> bool" where
  "isnan NaN = True"
| "isnan _ = False"

fun is_finite :: "pyfloat \<Rightarrow> bool" where
  "is_finite (Fin a) = True"
| "is_finite _ = False"


fun fneg :: "pyfloat \<Rightarrow> pyfloat" where
  "fneg (Fin a) = Fin (- a)"
| "fneg PInf = NInf"
| "fneg NInf = PInf"
| "fneg NaN = NaN"

fun fabs :: "pyfloat \<Rightarrow> pyfloat" where
  "fabs (Fin a) = Fin \<bar>a\<bar>"
| "fabs PInf = PInf"
| "fabs NInf = PInf"
| "fabs NaN = NaN"

fun flt :: "pyfloat \<Rightarrow> pyfloat \<Rightarrow> bool" where
  "flt NaN _ = False"
| "flt _ NaN = False"
| "flt (Fin a) (Fin b) = (a < b)"
| "flt _ NInf = False"
| "flt NInf _ = True"
| "flt PInf _ = False"
| "flt (Fin a) PInf = True"

definition fgt :: "pyfloat \<Rightarrow> pyfloat \<Rightarrow> bool" where
  "fgt a b = flt b a"

fun fadd :: "pyfloat \<Rightarrow> pyfloat \<Rightarrow> pyfloat" where
  "fadd NaN _ = NaN"
| "fadd _ NaN = NaN"
| "fadd (Fin a) (Fin b) = Fin (a + b)"
| "fadd PInf NInf = NaN"
| "fadd NInf PInf = NaN"
| "fadd PInf _ = PInf"
| "fadd _ PInf = PInf"
| "fadd NInf _ = NInf"
| "fadd _ NInf = NInf"

definition fsub :: "pyfloat \<Rightarrow> pyfloat \<Rightarrow> pyfloat" where
  "fsub a b = fadd a (fneg b)"

fun inf_times :: "pyfloat \<Rightarrow> real \<Rightarrow> pyfloat" where
  "inf_times i a = (if a > 0 then i else if a < 0 then fneg i else NaN)"

fun fmul :: "pyfloat \<Rightarrow> pyfloat \<Rightarrow> pyfloat" where
  "fmul NaN _ = NaN"
| "fmul _ NaN = NaN"
| "fmul (Fin a) (Fin b) = Fin (a * b)"
| "fmul (Fin a) i = inf_times i a"
| "fmul i (Fin b) = inf_times i b"
| "fmul PInf i = i"
| "fmul NInf i = fneg i"

fun fdiv :: "pyfloat \<Rightarrow> pyfloat \<Rightarrow> pyfloat" where
  "fdiv NaN _ = NaN"
| "fdiv _ NaN = NaN"
| "fdiv (Fin a) (Fin b) =
     (if b \<noteq> 0 then Fin (a / b)
      else if a > 0 then PInf else if a < 0 then NInf else NaN)"
| "fdiv (Fin a) _ = Fin 0"
| "fdiv i (Fin b) = (if b \<ge> 0 then i else fneg i)"
| "fdiv _ _ = NaN"

text \<open>\<open>numpy.mean\<close> of a list: the sum over the count; NaN (with a warning) when empty.\<close>

definition np_mean :: "pyfloat list \<Rightarrow> pyfloat" where
  "np_mean xs =
     (if xs = [] then NaN else fdiv (foldl fadd (Fin 0) xs) (Fin (real (length xs))))"

section \<open>Exceptions, values and log records\<close>

datatype error =
    PyException string
  | TypeError
  | KeyError
  | IndexError
  | ValueError
  | OverflowError

text \<open>
  The objects a data column holds: \<open>None\<close>, a number (an \<open>int\<close> or a \<open>float\<close>, read
  as the float it converts to) or a string.
\<close>

datatype pyval = PNone | PNum pyfloat | PStr string

text \<open>The results of \<open>decode\<close>: \<open>None\<close>, a float, or a Python integer.\<close>

datatype dval = DNone | DFloat pyfloat | DInt int

datatype log_entry =
    Error_nan_unsupported
  | Debug_cant_encode_target "pyfloat option"
  | Error_cant_encode_input "pyfloat option" error
  | Error_weird_target "pyfloat list"
  | Info_accuracy string pyfloat
  | Warning_changed_accuracy string pyfloat
  | Info_picked_best string
  | Warning_unstable_failed string error

text \<open>
  \<open>math.log\<close>: a domain error outside the positive numbers. \<open>math.exp\<close>: an
  \<open>OverflowError\<close> when the result of a finite argument exceeds the largest double.
\<close>

fun py_log :: "pyfloat \<Rightarrow> error + pyfloat" where
  "py_log (Fin a) = (if a > 0 then Inr (Fin (ln a)) else Inl ValueError)"
| "py_log PInf = Inr PInf"
| "py_log NInf = Inl ValueError"
| "py_log NaN = Inr NaN"

definition dbl_max :: real where
  "dbl_max = (2 ^ 53 - 1) * 2 ^ 971"

fun py_exp :: "pyfloat \<Rightarrow> error + pyfloat" where
  "py_exp (Fin a) = (if exp a > dbl_max then Inl OverflowError else Inr (Fin (exp a)))"
| "py_exp PInf = Inr PInf"
| "py_exp NInf = Inr (Fin 0)"
| "py_exp NaN = Inr NaN"

text \<open>\<open>int(x)\<close> of a float truncates towards zero; \<open>round(x)\<close> rounds half to even.\<close>

definition trunc :: "real \<Rightarrow> int" where
  "trunc a = (if a \<ge> 0 then \<lfloor>a\<rfloor> else \<lceil>a\<rceil>)"

definition py_round :: "real \<Rightarrow> int" where
  "py_round a =
     (let f = \<lfloor>a\<rfloor>; d = a - of_int f
      in if d < 1 / 2 then f else if d > 1 / 2 then f + 1
         else if even f then f else f + 1)"

text \<open>
  The conversion of a double to single precision (a significand of 24 bits, the
  exponents \<open>-126\<close> to \<open>127\<close>, denormal numbers below): the nearest multiple of the
  spacing at the number, halves to the even multiple, and an infinity where the
  result reaches \<open>2^128\<close>.
\<close>

definition f32_quantum :: "real \<Rightarrow> real" where
  "f32_quantum x = 2 powr (of_int (max \<lfloor>log 2 \<bar>x\<bar>\<rfloor> (- 126)) - 23)"

definition f32_round :: "real \<Rightarrow> pyfloat" where
  "f32_round x =
     (if x = 0 then Fin 0
      else (let y = of_int (py_round (x / f32_quantum x)) * f32_quantum x
            in if \<bar>y\<bar> \<ge> 2 ^ 128 then (if x > 0 then PInf else NInf) else Fin y))"

fun to_float32 :: "pyfloat \<Rightarrow> pyfloat" where
  "to_float32 (Fin x) = f32_round x"
| "to_float32 a = a"

fun py_int :: "dval \<Rightarrow> error + dval" where
  "py_int (DInt i) = Inr (DInt i)"
| "py_int (DFloat (Fin a)) = Inr (DInt (trunc a))"
| "py_int (DFloat NaN) = Inl ValueError"
| "py_int (DFloat _) = Inl OverflowError"
| "py_int DNone = Inl TypeError"

fun py_round_val :: "pyfloat \<Rightarrow> error + dval" where
  "py_round_val (Fin a) = Inr (DInt (py_round a))"
| "py_round_val NaN = Inl ValueError"
| "py_round_val _ = Inl OverflowError"

fun py_abs :: "dval \<Rightarrow> error + dval" where
  "py_abs (DInt i) = Inr (DInt \<bar>i\<bar>)"
| "py_abs (DFloat a) = Inr (DFloat (fabs a))"
| "py_abs DNone = Inl TypeError"

text \<open>
  The builtin \<open>float(s)\<close> on a string is not code of the repository: it is the
  parameter \<open>pf\<close> of every function that coerces, \<open>None\<close> where it raises.
\<close>

type_synonym parse_float = "string \<Rightarrow> pyfloat option"

definition replace_comma :: "string \<Rightarrow> string" where
  "replace_comma s = map (\<lambda>c. if c = CHR '','' then CHR ''.'' else c) s"

fun py_float :: "parse_float \<Rightarrow> pyval \<Rightarrow> pyfloat option" where
  "py_float pf PNone = None"
| "py_float pf (PNum a) = Some a"
| "py_float pf (PStr s) = pf s"

text \<open>\<open>xs[i]\<close> for an index that is not negative.\<close>

definition nth_py :: "'a list \<Rightarrow> nat \<Rightarrow> error + 'a" where
  "nth_py xs i = (if i < length xs then Inr (xs ! i) else Inl IndexError)"

text \<open>
  \<open>zip(*columns)\<close>: the rows of a list of columns, as long as the shortest column;
  no row at all when there is no column.
\<close>

definition zip_star :: "'a list list \<Rightarrow> 'a list list" where
  "zip_star cols =
     (case cols of
        [] \<Rightarrow> []
      | c # cs \<Rightarrow>
          map (\<lambda>i. map (\<lambda>col. col ! i) (c # cs))
            [0 ..< foldr (\<lambda>col m. min (length col) m) cs (length c)])"

section \<open>TsNumericEncoder\<close>

text \<open>
  A value of a group-by column is a hashable value (a string here); the filler of the
  default group information is the empty set \<open>set()\<close>, which is not hashable.
\<close>

datatype gval = GVal string | GEmptySet

text \<open>The keys of the normalizer dictionary: \<open>'__default'\<close> or a frozenset of values.\<close>

datatype nkey = Default_key | Group_key "string set"

record normalizer =
  abs_mean :: "pyfloat option"

record encoder =
  is_target :: bool
  prepared :: bool
  value_type :: "string option"
  self_abs_mean :: "pyfloat option"
  positive_domain :: bool
  decode_log :: bool
  normalize_by_group :: bool
  normalizers :: "(nkey \<rightharpoonup> normalizer) option"

definition TsNumericEncoder_init :: "string option \<Rightarrow> bool \<Rightarrow> encoder" where
  "TsNumericEncoder_init data_type target =
     \<lparr> is_target = target, prepared = False, value_type = data_type,
       self_abs_mean = None, positive_domain = False, decode_log = False,
       normalize_by_group = False, normalizers = None \<rparr>"

subsection \<open>prepare\<close>

text \<open>
  The first loop of \<open>prepare\<close>: values that \<open>float\<close> rejects are skipped, a NaN is
  refused, \<open>int(number)\<close> raises on an infinity, and one value that is not integral
  makes the type \<open>'float'\<close>.
\<close>

fun infer_type :: "parse_float \<Rightarrow> pyval list \<Rightarrow> string \<Rightarrow> log_entry list \<times> (error + string)" where
  "infer_type pf [] vt = ([], Inr vt)"
| "infer_type pf (v # vs) vt =
     (case py_float pf v of
        None \<Rightarrow> infer_type pf vs vt
      | Some NaN \<Rightarrow>
          ([Error_nan_unsupported],
           Inl (PyException ''Lightwood does not support working with NaN values !''))
      | Some PInf \<Rightarrow> ([], Inl OverflowError)
      | Some NInf \<Rightarrow> ([], Inl OverflowError)
      | Some (Fin a) \<Rightarrow>
          infer_type pf vs (if of_int (trunc a) \<noteq> a then ''float'' else vt))"

text \<open>
  \<open>float(str(x).replace(',', '.'))\<close> for every \<open>x\<close> that is not \<open>None\<close>; the text of a
  number has no comma and reads back as the same number.
\<close>

fun non_null_floats :: "parse_float \<Rightarrow> pyval list \<Rightarrow> error + pyfloat list" where
  "non_null_floats pf [] = Inr []"
| "non_null_floats pf (PNone # vs) = non_null_floats pf vs"
| "non_null_floats pf (PNum a # vs) =
     (case non_null_floats pf vs of Inl e \<Rightarrow> Inl e | Inr fs \<Rightarrow> Inr (a # fs))"
| "non_null_floats pf (PStr s # vs) =
     (case pf (replace_comma s) of
        None \<Rightarrow> Inl ValueError
      | Some a \<Rightarrow> (case non_null_floats pf vs of Inl e \<Rightarrow> Inl e | Inr fs \<Rightarrow> Inr (a # fs)))"

definition prepare :: "parse_float \<Rightarrow> encoder \<Rightarrow> pyval list \<Rightarrow> log_entry list \<times> (error + encoder)" where
  \<open>prepare pf self priming_data =
     (if prepared self
      then ([], Inl (PyException ''You can only call "prepare" once for a given encoder.''))
      else
        (case infer_type pf priming_data ''int'' of
           (l, Inl e) \<Rightarrow> (l, Inl e)
         | (l, Inr vt) \<Rightarrow>
             (case non_null_floats pf priming_data of
                Inl e \<Rightarrow> (l, Inl e)
              | Inr fs \<Rightarrow>
                  (l, Inr (self \<lparr> value_type :=
                                   (case value_type self of None \<Rightarrow> Some vt | Some t \<Rightarrow> Some t),
                                 self_abs_mean := Some (np_mean (map fabs fs)),
                                 prepared := True \<rparr>)))))\<close>

subsection \<open>encode\<close>

text \<open>The coercion of one datum: \<open>float(real)\<close>, then with the comma replaced, then \<open>None\<close>.\<close>

definition coerce :: "parse_float \<Rightarrow> pyval \<Rightarrow> pyfloat option" where
  "coerce pf v =
     (case py_float pf v of
        Some a \<Rightarrow> Some a
      | None \<Rightarrow> (case v of PStr s \<Rightarrow> pf (replace_comma s) | _ \<Rightarrow> None))"

definition default_group_info :: "nat \<Rightarrow> (string \<times> gval list) list" where
  "default_group_info n = [(''__default'', replicate n GEmptySet)]"

definition frozenset :: "gval list \<Rightarrow> error + string set" where
  "frozenset grp =
     (if GEmptySet \<in> set grp then Inl TypeError
      else Inr (set (concat (map (\<lambda>v. case v of GVal s \<Rightarrow> [s] | GEmptySet \<Rightarrow> []) grp))))"

text \<open>
  The mean a target row is scaled by. The source tests \<open>not group\<close>: the normalizer
  dictionary is read for an empty group tuple only, and \<open>self._abs_mean\<close> is the mean
  of every other row.
\<close>

definition resolve_mean :: "encoder \<Rightarrow> gval list \<Rightarrow> error + pyfloat option" where
  "resolve_mean self grp =
     (if grp = [] then
        (case frozenset grp of
           Inl e \<Rightarrow> Inl e
         | Inr k \<Rightarrow>
             (case normalizers self of
                None \<Rightarrow> Inl TypeError
              | Some nm \<Rightarrow>
                  (case nm (Group_key k) of
                     Some n \<Rightarrow> Inr (abs_mean n)
                   | None \<Rightarrow>
                       (case nm Default_key of
                          Some n \<Rightarrow> Inr (abs_mean n)
                        | None \<Rightarrow> Inl KeyError))))
      else Inr (self_abs_mean self))"

definition sign_flag :: "encoder \<Rightarrow> pyfloat \<Rightarrow> pyfloat" where
  "sign_flag self r = (if flt r (Fin 0) \<and> \<not> positive_domain self then Fin 1 else Fin 0)"

definition log_magnitude :: "pyfloat \<Rightarrow> error + pyfloat" where
  "log_magnitude r = (if fgt (fabs r) (Fin 0) then py_log (fabs r) else Inr (Fin (- 20)))"

definition zeros :: "nat \<Rightarrow> pyfloat list" where
  "zeros n = replicate n (Fin 0)"

definition encode_target ::
  "encoder \<Rightarrow> pyfloat option \<Rightarrow> gval list \<Rightarrow> log_entry list \<times> (error + pyfloat list)" where
  "encode_target self rl grp =
     (case resolve_mean self grp of
        Inl e \<Rightarrow> ([], Inl e)
      | Inr mean \<Rightarrow>
          (case rl of
             None \<Rightarrow> ([Debug_cant_encode_target rl], Inr (zeros 3))
           | Some r \<Rightarrow>
               (case mean of
                  None \<Rightarrow> ([], Inl TypeError)
                | Some m \<Rightarrow>
                    if fgt m (Fin 0) then
                      (case log_magnitude r of
                         Inl e \<Rightarrow> ([], Inl e)
                       | Inr lm \<Rightarrow> ([], Inr [sign_flag self r, lm, fdiv r m]))
                    else ([Debug_cant_encode_target rl], Inr (zeros 3)))))"

text \<open>The body of the \<open>try\<close> of the non-target layout, for a datum that is not \<open>None\<close>.\<close>

definition input_vector :: "encoder \<Rightarrow> pyfloat \<Rightarrow> error + pyfloat list" where
  "input_vector self r =
     (case log_magnitude r of
        Inl e \<Rightarrow> Inl e
      | Inr lm \<Rightarrow>
          (case self_abs_mean self of
             None \<Rightarrow> Inl TypeError
           | Some m \<Rightarrow> Inr [Fin 1, lm, sign_flag self r, fdiv r m]))"

definition encode_input :: "encoder \<Rightarrow> pyfloat option \<Rightarrow> log_entry list \<times> pyfloat list" where
  "encode_input self rl =
     (case rl of
        None \<Rightarrow> ([], zeros 4)
      | Some r \<Rightarrow>
          (case input_vector self r of
             Inr v \<Rightarrow> ([], v)
           | Inl e \<Rightarrow> ([Error_cant_encode_input rl e], zeros 4)))"

definition encode_row ::
  "parse_float \<Rightarrow> encoder \<Rightarrow> pyval \<Rightarrow> gval list \<Rightarrow> log_entry list \<times> (error + pyfloat list)" where
  "encode_row pf self datum grp =
     (if is_target self then encode_target self (coerce pf datum) grp
      else (case encode_input self (coerce pf datum) of (l, v) \<Rightarrow> (l, Inr v)))"

fun encode_rows ::
  "parse_float \<Rightarrow> encoder \<Rightarrow> (pyval \<times> gval list) list
     \<Rightarrow> log_entry list \<times> (error + pyfloat list list)" where
  "encode_rows pf self [] = ([], Inr [])"
| "encode_rows pf self ((datum, grp) # rest) =
     (case encode_row pf self datum grp of
        (l, Inl e) \<Rightarrow> (l, Inl e)
      | (l, Inr v) \<Rightarrow>
          (case encode_rows pf self rest of
             (l', Inl e) \<Rightarrow> (l @ l', Inl e)
           | (l', Inr vs) \<Rightarrow> (l @ l', Inr (v # vs))))"

text \<open>
  \<open>extra_data\<close> is \<open>None\<close> or carries the group information, a dictionary from group-by
  column to that column's values (in insertion order).
\<close>

definition group_rows :: "nat \<Rightarrow> (string \<times> gval list) list option \<Rightarrow> gval list list" where
  "group_rows n group_info =
     zip_star (map snd
       (case group_info of
          None \<Rightarrow> default_group_info n
        | Some gi \<Rightarrow> if gi = [] then default_group_info n else gi))"

definition not_prepared :: error where
  \<open>not_prepared = PyException ''You need to call "prepare" before calling "encode" or "decode".''\<close>

text \<open>
  The vectors are returned as \<open>torch.Tensor(ret)\<close>, a tensor of single precision:
  every component is rounded to single precision.
\<close>

definition encode ::
  "parse_float \<Rightarrow> encoder \<Rightarrow> pyval list \<Rightarrow> (string \<times> gval list) list option
     \<Rightarrow> log_entry list \<times> (error + pyfloat list list)" where
  "encode pf self data extra_data =
     (if \<not> prepared self then ([], Inl not_prepared)
      else (case encode_rows pf self (zip data (group_rows (length data) extra_data)) of
              (l, Inl e) \<Rightarrow> (l, Inl e)
            | (l, Inr ret) \<Rightarrow> (l, Inr (map (map to_float32) ret))))"

subsection \<open>decode\<close>

text \<open>The test of one component: \<open>np.isnan(x) or x == float('inf')\<close>.\<close>

definition weird :: "pyfloat \<Rightarrow> bool" where
  "weird a = (isnan a \<or> a = PInf)"

text \<open>The test of the first three components, left to right, stopping at the first hit.\<close>

definition is_weird_vector :: "pyfloat list \<Rightarrow> error + bool" where
  "is_weird_vector v =
     (case nth_py v 0 of
        Inl e \<Rightarrow> Inl e
      | Inr a \<Rightarrow>
          if weird a then Inr True
          else (case nth_py v 1 of
                  Inl e \<Rightarrow> Inl e
                | Inr b \<Rightarrow>
                    if weird b then Inr True
                    else (case nth_py v 2 of
                            Inl e \<Rightarrow> Inl e
                          | Inr c \<Rightarrow> Inr (weird c))))"

definition sentinel :: int where
  "sentinel = 10 ^ 63"

text \<open>\<open>math.exp(vector[1]) * sign\<close>, and the sentinel with that sign on overflow.\<close>

definition decode_by_log :: "pyfloat list \<Rightarrow> error + dval" where
  "decode_by_log v =
     (case nth_py v 0 of
        Inl e \<Rightarrow> Inl e
      | Inr a \<Rightarrow>
          (let sign = (if fgt a (Fin (1 / 2)) then - 1 else 1 :: int)
           in case nth_py v 1 of
                Inl e \<Rightarrow> Inl e
              | Inr b \<Rightarrow>
                  (case py_exp b of
                     Inr x \<Rightarrow> Inr (DFloat (fmul x (Fin (of_int sign))))
                   | Inl OverflowError \<Rightarrow> Inr (DInt (sentinel * sign))
                   | Inl e \<Rightarrow> Inl e)))"

text \<open>\<open>vector[2] * mean\<close>, the mean resolved as in \<open>encode\<close>.\<close>

definition decode_by_mean :: "encoder \<Rightarrow> pyfloat list \<Rightarrow> gval list \<Rightarrow> error + dval" where
  "decode_by_mean self v grp =
     (case resolve_mean self grp of
        Inl e \<Rightarrow> Inl e
      | Inr mean \<Rightarrow>
          (case nth_py v 2 of
             Inl e \<Rightarrow> Inl e
           | Inr c \<Rightarrow>
               (case mean of
                  None \<Rightarrow> Inl TypeError
                | Some m \<Rightarrow> Inr (DFloat (fmul c m)))))"

definition decode_target ::
  "encoder \<Rightarrow> bool \<Rightarrow> pyfloat list \<Rightarrow> gval list \<Rightarrow> log_entry list \<times> (error + dval)" where
  "decode_target self dlog v grp =
     (case is_weird_vector v of
        Inl e \<Rightarrow> ([], Inl e)
      | Inr True \<Rightarrow> ([Error_weird_target v], Inr (DInt sentinel))
      | Inr False \<Rightarrow>
          (case (if dlog then decode_by_log v else decode_by_mean self v grp) of
             Inl e \<Rightarrow> ([], Inl e)
           | Inr real_value \<Rightarrow>
               (case (if positive_domain self then py_abs real_value else Inr real_value) of
                  Inl e \<Rightarrow> ([], Inl e)
                | Inr real_value' \<Rightarrow>
                    ([], if value_type self = Some ''int'' then py_int real_value'
                         else Inr real_value'))))"

definition decode_input :: "encoder \<Rightarrow> pyfloat list \<Rightarrow> error + dval" where
  "decode_input self v =
     (case nth_py v 0 of
        Inl e \<Rightarrow> Inl e
      | Inr a \<Rightarrow>
          if flt a (Fin (1 / 2)) then Inr DNone
          else (case nth_py v 3 of
                  Inl e \<Rightarrow> Inl e
                | Inr d \<Rightarrow>
                    (case self_abs_mean self of
                       None \<Rightarrow> Inl TypeError
                     | Some m \<Rightarrow>
                         if value_type self = Some ''int'' then py_round_val (fmul d m)
                         else Inr (DFloat (fmul d m)))))"

definition decode_row ::
  "encoder \<Rightarrow> bool \<Rightarrow> pyfloat list \<Rightarrow> gval list \<Rightarrow> log_entry list \<times> (error + dval)" where
  "decode_row self dlog v grp =
     (if is_target self then decode_target self dlog v grp else ([], decode_input self v))"

fun decode_rows ::
  "encoder \<Rightarrow> bool \<Rightarrow> (pyfloat list \<times> gval list) list \<Rightarrow> log_entry list \<times> (error + dval list)" where
  "decode_rows self dlog [] = ([], Inr [])"
| "decode_rows self dlog ((v, grp) # rest) =
     (case decode_row self dlog v grp of
        (l, Inl e) \<Rightarrow> (l, Inl e)
      | (l, Inr x) \<Rightarrow>
          (case decode_rows self dlog rest of
             (l', Inl e) \<Rightarrow> (l @ l', Inl e)
           | (l', Inr xs) \<Rightarrow> (l @ l', Inr (x # xs))))"

definition decode ::
  "encoder \<Rightarrow> pyfloat list list \<Rightarrow> bool option \<Rightarrow> (string \<times> gval list) list option
     \<Rightarrow> log_entry list \<times> (error + dval list)" where
  "decode self encoded_values dlog group_info =
     (if \<not> prepared self then ([], Inl not_prepared)
      else decode_rows self (case dlog of None \<Rightarrow> decode_log self | Some b \<Rightarrow> b)
             (zip encoded_values (group_rows (length encoded_values) group_info)))"

section \<open>timeseries_analyzer.get_delta\<close>

text \<open>
  A frame maps a column to its rows; a value of an ordering column is a sequence of
  numbers, of which \<open>x[-1]\<close> is read. A group is \<open>'__default'\<close> or a tuple of
  group-by values.
\<close>

type_synonym frame = "string \<rightharpoonup> pyfloat list list"

datatype gkey = Default_group | Combination "string list"

record ts_info =
  info_group_info :: "(string \<times> string list) list option"
  info_data :: "pyfloat list"

text \<open>\<open>pd.Series([x[-1] for x in df[col]])\<close>.\<close>

fun last_elements :: "pyfloat list list \<Rightarrow> error + pyfloat list" where
  "last_elements [] = Inr []"
| "last_elements (x # xs) =
     (if x = [] then Inl IndexError
      else (case last_elements xs of Inl e \<Rightarrow> Inl e | Inr ys \<Rightarrow> Inr (last x # ys)))"

definition series_of :: "frame \<Rightarrow> string \<Rightarrow> error + pyfloat list" where
  "series_of df col = (case df col of None \<Rightarrow> Inl KeyError | Some rows \<Rightarrow> last_elements rows)"

text \<open>
  \<open>series.rolling(window=2).apply(lambda x: x.iloc[1] - x.iloc[0])\<close>: NaN at the first
  position, then each value minus the one before it. A rolling window of pandas reads
  an infinity of the series as NaN, and a window that holds a NaN gives NaN.
\<close>

fun rolling_diff :: "pyfloat list \<Rightarrow> pyfloat list" where
  "rolling_diff [] = []"
| "rolling_diff (x # xs) =
     NaN # map (\<lambda>(a, b). if is_finite a \<and> is_finite b then fsub b a else NaN)
             (zip (x # xs) xs)"

text \<open>
  \<open>Series.value_counts(ascending=False)\<close> of pandas: NaN is dropped, each distinct value
  is counted, and the values are sorted by falling count. The order that this sort
  gives to values of one count is not fixed (the default sort of pandas is not
  stable): the sort is the parameter \<open>sort_values\<close>, of which the properties below
  assume no more than that it permutes the values and that the counts of its result
  fall.
\<close>

type_synonym count_sort = "(pyfloat \<times> nat) list \<Rightarrow> (pyfloat \<times> nat) list"

primrec first_seen :: "'a list \<Rightarrow> 'a list" where
  "first_seen [] = []"
| "first_seen (x # xs) = x # filter (\<lambda>y. y \<noteq> x) (first_seen xs)"

definition value_counts :: "count_sort \<Rightarrow> pyfloat list \<Rightarrow> (pyfloat \<times> nat) list" where
  "value_counts sort_values xs =
     (let ys = filter (\<lambda>x. \<not> isnan x) xs
      in sort_values (map (\<lambda>k. (k, count_list ys k)) (first_seen ys)))"

text \<open>
  What is assumed of the sort on a list of counted values: the result has the same
  entries, and its counts fall.
\<close>

definition ranks_by_count :: "count_sort \<Rightarrow> (pyfloat \<times> nat) list \<Rightarrow> bool" where
  "ranks_by_count sort_values kcs =
     (set (sort_values kcs) = set kcs \<and> sorted (rev (map snd (sort_values kcs))))"

text \<open>
  One such sort, for the evaluation of concrete inputs: the stable sort by rising
  count, reversed. Of the values of one count it lists the one seen last first.
\<close>

definition rising_reversed :: count_sort where
  "rising_reversed kcs = rev (sort_key snd kcs)"

text \<open>\<open>rolling_diff.value_counts(ascending=False).keys()[0]\<close>.\<close>

definition infer_delta :: "count_sort \<Rightarrow> pyfloat list \<Rightarrow> error + pyfloat" where
  "infer_delta sort_values series =
     (case value_counts sort_values (rolling_diff series) of
        [] \<Rightarrow> Inl IndexError
      | kc # _ \<Rightarrow> Inr (fst kc))"

fun default_deltas ::
  "count_sort \<Rightarrow> frame \<Rightarrow> string list \<Rightarrow> (string \<rightharpoonup> pyfloat)
     \<Rightarrow> error + (string \<rightharpoonup> pyfloat)" where
  "default_deltas sort_values df [] d = Inr d"
| "default_deltas sort_values df (col # cols) d =
     (case series_of df col of
        Inl e \<Rightarrow> Inl e
      | Inr series \<Rightarrow>
          (case infer_delta sort_values series of
             Inl e \<Rightarrow> Inl e
           | Inr delta \<Rightarrow> default_deltas sort_values df cols (d(col \<mapsto> delta))))"

text \<open>
  \<open>get_group_matches\<close> is imported from a module that is not part of the sources at
  hand: it is the parameter \<open>ggm\<close>, called on the information (whose \<open>data\<close> is the
  series of the column) and the group, and returning the matching subset of the series.
\<close>

type_synonym group_matches = "ts_info \<Rightarrow> gkey \<Rightarrow> error + pyfloat list"

fun group_deltas ::
  "count_sort \<Rightarrow> group_matches \<Rightarrow> frame \<Rightarrow> ts_info \<Rightarrow> gkey \<Rightarrow> string list
     \<Rightarrow> (string \<rightharpoonup> pyfloat) \<Rightarrow> error + (string \<rightharpoonup> pyfloat)" where
  "group_deltas sort_values ggm df info g [] d = Inr d"
| "group_deltas sort_values ggm df info g (col # cols) d =
     (case series_of df col of
        Inl e \<Rightarrow> Inl e
      | Inr series \<Rightarrow>
          (case ggm (info \<lparr> info_data := series \<rparr>) g of
             Inl e \<Rightarrow> Inl e
           | Inr matched \<Rightarrow>
               if length matched > 1 then
                 (case infer_delta sort_values matched of
                    Inl e \<Rightarrow> Inl e
                  | Inr delta \<Rightarrow>
                      group_deltas sort_values ggm df info g cols (d(col \<mapsto> delta)))
               else group_deltas sort_values ggm df info g cols d))"

fun all_group_deltas ::
  "count_sort \<Rightarrow> group_matches \<Rightarrow> frame \<Rightarrow> ts_info \<Rightarrow> gkey list \<Rightarrow> string list
     \<Rightarrow> (gkey \<rightharpoonup> (string \<rightharpoonup> pyfloat)) \<Rightarrow> error + (gkey \<rightharpoonup> (string \<rightharpoonup> pyfloat))" where
  "all_group_deltas sort_values ggm df info [] cols deltas = Inr deltas"
| "all_group_deltas sort_values ggm df info (g # gs) cols deltas =
     (if g \<noteq> Default_group then
        (case group_deltas sort_values ggm df info g cols Map.empty of
           Inl e \<Rightarrow> Inl e
         | Inr d \<Rightarrow> all_group_deltas sort_values ggm df info gs cols (deltas(g \<mapsto> d)))
      else all_group_deltas sort_values ggm df info gs cols deltas)"

text \<open>\<open>ts_info.get('group_info', False)\<close> as a condition: the key is there and not empty.\<close>

definition has_group_info :: "ts_info \<Rightarrow> bool" where
  "has_group_info info =
     (case info_group_info info of None \<Rightarrow> False | Some gi \<Rightarrow> gi \<noteq> [])"

definition get_delta ::
  "count_sort \<Rightarrow> group_matches \<Rightarrow> frame \<Rightarrow> ts_info \<Rightarrow> gkey list \<Rightarrow> string list
     \<Rightarrow> error + (gkey \<rightharpoonup> (string \<rightharpoonup> pyfloat))" where
  "get_delta sort_values ggm df info group_combinations order_cols =
     (case default_deltas sort_values df order_cols Map.empty of
        Inl e \<Rightarrow> Inl e
      | Inr d \<Rightarrow>
          if has_group_info info
          then all_group_deltas sort_values ggm df info group_combinations order_cols
                 [Default_group \<mapsto> d]
          else Inr [Default_group \<mapsto> d])"

section \<open>The BestOf ensemble\<close>

record prediction_arguments =
  all_mixers :: bool
  predict_proba :: bool

text \<open>
  A mixer is known by its contract: the name of its class, the two flags, and what a
  call \<open>mixer(ds, args)\<close> returns or raises. The frame it returns is of type \<open>'p\<close>.
\<close>

record ('d, 'p) mixer =
  mixer_name :: string
  stable :: bool
  supports_proba :: bool
  predict :: "'d \<Rightarrow> prediction_arguments \<Rightarrow> error + 'p"

text \<open>
  Modelled from the spec: \<open>is_nan_numeric\<close> (of \<open>lightwood.helpers.numeric\<close>, which is
  not among the sources) holds of a score that is not finite: NaN or an infinity.
\<close>

fun is_nan_numeric :: "pyfloat \<Rightarrow> bool" where
  "is_nan_numeric (Fin a) = False"
| "is_nan_numeric _ = True"

definition score_sentinel :: pyfloat where
  "score_sentinel = Fin (- (2 ^ 63))"

text \<open>
  The loop over the mixers in \<open>__init__\<close>. The column \<open>['prediction']\<close> of a frame and
  \<open>evaluate_accuracy\<close> (an import) are the parameters \<open>pcol\<close> and \<open>acc\<close>; \<open>acc\<close> returns
  the values of the score dictionary.
\<close>

fun score_mixers ::
  "('p \<Rightarrow> error + 'c) \<Rightarrow> ('c \<Rightarrow> error + pyfloat list) \<Rightarrow> ('d, 'p) mixer list \<Rightarrow> 'd
     \<Rightarrow> prediction_arguments \<Rightarrow> log_entry list \<times> (error + pyfloat list)" where
  "score_mixers pcol acc [] data args = ([], Inr [])"
| "score_mixers pcol acc (m # ms) data args =
     (case predict m data args of
        Inl e \<Rightarrow> ([], Inl e)
      | Inr p \<Rightarrow>
          (case pcol p of
             Inl e \<Rightarrow> ([], Inl e)
           | Inr c \<Rightarrow>
               (case acc c of
                  Inl e \<Rightarrow> ([], Inl e)
                | Inr score_values \<Rightarrow>
                    (let avg_score = np_mean score_values;
                         l = Info_accuracy (mixer_name m) avg_score #
                             (if is_nan_numeric avg_score
                              then [Warning_changed_accuracy (mixer_name m) score_sentinel]
                              else []);
                         avg_score' = (if is_nan_numeric avg_score then score_sentinel
                                       else avg_score)
                     in case score_mixers pcol acc ms data args of
                          (l', Inl e) \<Rightarrow> (l @ l', Inl e)
                        | (l', Inr score_list) \<Rightarrow> (l @ l', Inr (avg_score' # score_list))))))"

text \<open>
  \<open>numpy.argsort\<close>: the indices in rising order of the values, in the order of numpy's
  sort (an infinity below or above every number, NaN last). The default sort of numpy
  does not fix the order of the indices of equal values; they are taken here in rising
  order, and no property below depends on their order.
\<close>

fun sort_rank :: "pyfloat \<Rightarrow> nat \<times> real" where
  "sort_rank NInf = (0, 0)"
| "sort_rank (Fin a) = (1, a)"
| "sort_rank PInf = (2, 0)"
| "sort_rank NaN = (3, 0)"

definition argsort :: "pyfloat list \<Rightarrow> nat list" where
  "argsort xs = sort_key (\<lambda>i. sort_rank (xs ! i)) [0 ..< length xs]"

text \<open>
  \<open>store_context\<close>: a data frame is its column names and its rows; for a time-series
  target, the last row of every filter \<open>data[data[col] == value]\<close>, over the groups
  other than \<open>'__default'\<close> and the group-by columns paired with the group's values.
\<close>

record data_frame =
  frame_columns :: "string list"
  frame_rows :: "(string \<Rightarrow> string) list"

record ts_analysis =
  group_combinations :: "gkey list"
  tss_group_by :: "string list"

definition last_matching :: "data_frame \<Rightarrow> string \<Rightarrow> string \<Rightarrow> error + (string \<Rightarrow> string)" where
  "last_matching data col v =
     (if col \<notin> set (frame_columns data) then Inl KeyError
      else (case filter (\<lambda>r. r col = v) (frame_rows data) of
              [] \<Rightarrow> Inl IndexError
            | r # rs \<Rightarrow> Inr (last (r # rs))))"

fun context_of_pairs ::
  "data_frame \<Rightarrow> (string \<times> string) list \<Rightarrow> (string \<Rightarrow> string) list
     \<Rightarrow> error + (string \<Rightarrow> string) list" where
  "context_of_pairs data [] ctx = Inr ctx"
| "context_of_pairs data ((col, v) # col_map) ctx =
     (case last_matching data col v of
        Inl e \<Rightarrow> Inl e
      | Inr r \<Rightarrow> context_of_pairs data col_map (ctx @ [r]))"

text \<open>
  \<open>col_map\<close> is a dictionary: a column that occurs twice keeps its first place and its
  last value.
\<close>

fun dict_set :: "('k \<times> 'v) list \<Rightarrow> 'k \<Rightarrow> 'v \<Rightarrow> ('k \<times> 'v) list" where
  "dict_set [] k v = [(k, v)]"
| "dict_set ((k', v') # kvs) k v =
     (if k' = k then (k, v) # kvs else (k', v') # dict_set kvs k v)"

definition dict_of :: "('k \<times> 'v) list \<Rightarrow> ('k \<times> 'v) list" where
  "dict_of kvs = foldl (\<lambda>d kv. dict_set d (fst kv) (snd kv)) [] kvs"

fun context_of_groups ::
  "data_frame \<Rightarrow> string list \<Rightarrow> gkey list \<Rightarrow> (string \<Rightarrow> string) list
     \<Rightarrow> error + (string \<Rightarrow> string) list" where
  "context_of_groups data group_by [] ctx = Inr ctx"
| "context_of_groups data group_by (Default_group # gs) ctx =
     context_of_groups data group_by gs ctx"
| "context_of_groups data group_by (Combination vs # gs) ctx =
     (case context_of_pairs data (dict_of (zip group_by vs)) ctx of
        Inl e \<Rightarrow> Inl e
      | Inr ctx' \<Rightarrow> context_of_groups data group_by gs ctx')"

definition store_context ::
  "string option \<Rightarrow> data_frame \<Rightarrow> ts_analysis option \<Rightarrow> error + (string \<Rightarrow> string) list" where
  "store_context target_dtype data analysis =
     (case target_dtype of
        None \<Rightarrow> Inl KeyError
      | Some t \<Rightarrow>
          if t = ''tsarray'' then
            (case analysis of
               None \<Rightarrow> Inl TypeError
             | Some a \<Rightarrow> context_of_groups data (tss_group_by a) (group_combinations a) [])
          else Inr [])"

record ('d, 'p) best_of =
  mixers :: "('d, 'p) mixer list"
  indexes_by_accuracy :: "nat list"
  self_supports_proba :: bool
  self_context :: "(string \<Rightarrow> string) list"

text \<open>
  \<open>BestOf.__init__\<close>. \<open>data\<close> is the encoded validation set and \<open>data_frame\<close> its frame;
  \<open>target_dtype\<close> is \<open>dtype_dict[target]\<close>, \<open>None\<close> when the key is missing.
\<close>

definition BestOf_init ::
  "('p \<Rightarrow> error + 'c) \<Rightarrow> ('c \<Rightarrow> error + pyfloat list) \<Rightarrow> ('d, 'p) mixer list \<Rightarrow> 'd
     \<Rightarrow> data_frame \<Rightarrow> string option \<Rightarrow> prediction_arguments \<Rightarrow> ts_analysis option
     \<Rightarrow> log_entry list \<times> (error + ('d, 'p) best_of)" where
  "BestOf_init pcol acc ms data frame target_dtype args analysis =
     (case score_mixers pcol acc ms data args of
        (l, Inl e) \<Rightarrow> (l, Inl e)
      | (l, Inr score_list) \<Rightarrow>
          (case store_context target_dtype frame analysis of
             Inl e \<Rightarrow> (l, Inl e)
           | Inr ctx \<Rightarrow>
               (let idx = rev (argsort score_list)
                in case nth_py idx 0 of
                     Inl e \<Rightarrow> (l, Inl e)
                   | Inr best \<Rightarrow>
                       (case nth_py ms best of
                          Inl e \<Rightarrow> (l, Inl e)
                        | Inr m \<Rightarrow>
                            (l @ [Info_picked_best (mixer_name m)],
                             Inr \<lparr> mixers = ms, indexes_by_accuracy = idx,
                                   self_supports_proba = supports_proba m,
                                   self_context = ctx \<rparr>)))))"

text \<open>
  \<open>BestOf.__call__\<close> returns a frame of one column per mixer (all-mixers mode), the
  frame of one mixer, or, when the loop of the default mode ends, \<open>None\<close>.
\<close>

datatype ('p, 'c) call_result = Frame 'p | Columns "(string \<times> 'c) list" | PyNone

fun call_all ::
  "('p \<Rightarrow> error + 'c) \<Rightarrow> ('d, 'p) mixer list \<Rightarrow> 'd \<Rightarrow> prediction_arguments
     \<Rightarrow> (string \<times> 'c) list \<Rightarrow> error + (string \<times> 'c) list" where
  "call_all pcol [] ds args predictions = Inr predictions"
| "call_all pcol (m # ms) ds args predictions =
     (case predict m ds args of
        Inl e \<Rightarrow> Inl e
      | Inr p \<Rightarrow>
          (case pcol p of
             Inl e \<Rightarrow> Inl e
           | Inr c \<Rightarrow>
               call_all pcol ms ds args
                 (dict_set predictions (''__mdb_mixer_'' @ mixer_name m) c)))"

fun call_ranked ::
  "('d, 'p) mixer list \<Rightarrow> nat list \<Rightarrow> 'd \<Rightarrow> prediction_arguments
     \<Rightarrow> log_entry list \<times> (error + ('p, 'c) call_result)" where
  "call_ranked ms [] ds args = ([], Inr PyNone)"
| "call_ranked ms (mixer_index # rest) ds args =
     (case nth_py ms mixer_index of
        Inl e \<Rightarrow> ([], Inl e)
      | Inr m \<Rightarrow>
          (case predict m ds args of
             Inr p \<Rightarrow> ([], Inr (Frame p))
           | Inl e \<Rightarrow>
               if stable m then ([], Inl e)
               else (case call_ranked ms rest ds args of
                       (l, r) \<Rightarrow> (Warning_unstable_failed (mixer_name m) e # l, r))))"

definition BestOf_call ::
  "('p \<Rightarrow> error + 'c) \<Rightarrow> ('d, 'p) best_of \<Rightarrow> 'd \<Rightarrow> prediction_arguments
     \<Rightarrow> log_entry list \<times> (error + ('p, 'c) call_result)" where
  "BestOf_call pcol self ds args =
     (if all_mixers args then
        (case call_all pcol (mixers self) ds args [] of
           Inl e \<Rightarrow> ([], Inl e)
         | Inr predictions \<Rightarrow> ([], Inr (Columns predictions)))
      else call_ranked (mixers self) (indexes_by_accuracy self) ds args)"

section \<open>Properties of the encoder\<close>

subsection \<open>Single precision\<close>

text \<open>
  The rounding to single precision moves a number by at most \<open>2^-24\<close> of its size, or
  by \<open>2^-150\<close> among the denormal numbers.
\<close>

lemma py_round_of_int: "py_round (of_int i) = i"
  by (simp add: py_round_def)

lemma py_round_error: "\<bar>of_int (py_round r) - r\<bar> \<le> 1 / 2"
  unfolding py_round_def Let_def by (auto simp: abs_if) linarith+

lemma f32_quantum_pos: "0 < f32_quantum x"
  by (simp add: f32_quantum_def)

lemma f32_quantum_bound:
  assumes "x \<noteq> 0"
  shows "f32_quantum x \<le> \<bar>x\<bar> / 2 ^ 23 + 1 / 2 ^ 149"
proof (cases "- 126 \<le> \<lfloor>log 2 \<bar>x\<bar>\<rfloor>")
  case True
  then have "max \<lfloor>log 2 \<bar>x\<bar>\<rfloor> (- 126) = \<lfloor>log 2 \<bar>x\<bar>\<rfloor>"
    by (rule max_absorb1)
  then have "f32_quantum x = 2 powr (of_int \<lfloor>log 2 \<bar>x\<bar>\<rfloor> - 23)"
    by (simp only: f32_quantum_def)
  also have "\<dots> \<le> 2 powr (log 2 \<bar>x\<bar> - 23)"
    by (intro powr_mono) simp_all
  also have "\<dots> = \<bar>x\<bar> / 2 ^ 23"
    using assms by (simp add: powr_diff)
  finally show ?thesis by (simp add: add_increasing2)
next
  case False
  then have "max \<lfloor>log 2 \<bar>x\<bar>\<rfloor> (- 126) = - 126"
    by (intro max_absorb2) simp
  then have "f32_quantum x = 2 powr (of_int (- 126) - 23)"
    by (simp only: f32_quantum_def)
  also have "\<dots> = 1 / 2 ^ 149"
    by (simp add: powr_minus_divide)
  finally show ?thesis by simp
qed


text \<open>A number of at most 24 significant bits is its own rounding.\<close>

lemma f32_quantum_binade:
  assumes "2 ^ k \<le> \<bar>x\<bar>" and "\<bar>x\<bar> < 2 ^ Suc k"
  shows "f32_quantum x = 2 ^ k / 2 ^ 23"
proof -
  have pos: "0 < \<bar>x\<bar>"
    using assms(1) by (smt (verit) zero_less_power)
  have "(2::real) powr of_int (int k) \<le> \<bar>x\<bar>" "\<bar>x\<bar> < 2 powr (of_int (int k) + 1)"
    using assms by (simp_all add: powr_realpow powr_add)
  then have "\<lfloor>log 2 \<bar>x\<bar>\<rfloor> = int k"
    using pos by (simp add: floor_log_eq_powr_iff)
  then have "f32_quantum x = 2 powr (of_int (int k) - 23)"
    by (simp add: f32_quantum_def max_def)
  then show ?thesis
    by (simp add: powr_diff powr_realpow)
qed

lemma f32_round_exact:
  assumes "2 ^ k \<le> \<bar>x\<bar>" and "\<bar>x\<bar> < 2 ^ Suc k" and "k \<le> 127"
    and "x * 2 ^ 23 / 2 ^ k = of_int n"
  shows "f32_round x = Fin x"
proof -
  have x0: "x \<noteq> 0"
    using assms(1) by (smt (verit) zero_less_power)
  have q: "f32_quantum x = 2 ^ k / 2 ^ 23"
    by (rule f32_quantum_binade[OF assms(1,2)])
  have d: "x / f32_quantum x = of_int n"
    unfolding q using assms(4) by simp
  have "py_round (x / f32_quantum x) = n"
    by (simp only: d py_round_of_int)
  moreover have "of_int n * f32_quantum x = x"
    using d f32_quantum_pos[of x] by (simp add: field_simps)
  ultimately have y: "of_int (py_round (x / f32_quantum x)) * f32_quantum x = x"
    by simp
  have "(2::real) ^ Suc k \<le> 2 ^ 128"
    using assms(3) by (intro power_increasing) simp_all
  with assms(2) have "\<bar>x\<bar> < 2 ^ 128" by linarith
  with x0 show ?thesis
    unfolding f32_round_def y Let_def by simp
qed

lemma f32_round_1: "f32_round 1 = Fin 1"
  by (rule f32_round_exact[where k = 0 and n = "2 ^ 23"]) simp_all

lemma f32_round_4: "f32_round 4 = Fin 4"
  by (rule f32_round_exact[where k = 2 and n = "2 ^ 23"]) simp_all

lemma f32_round_m20: "f32_round (- 20) = Fin (- 20)"
  by (rule f32_round_exact[where k = 4 and n = "- 5 * 2 ^ 21"]) simp_all

lemma f32_round_3_2: "f32_round (3 / 2) = Fin (3 / 2)"
  by (rule f32_round_exact[where k = 0 and n = "3 * 2 ^ 22"]) simp_all

lemma f32_round_power_overflow:
  assumes "128 \<le> k"
  shows "f32_round (2 ^ k) = PInf"
proof -
  have q: "f32_quantum (2 ^ k) = 2 ^ k / 2 ^ 23"
    by (rule f32_quantum_binade) simp_all
  have d: "(2 ^ k :: real) / f32_quantum (2 ^ k) = of_int (2 ^ 23)"
    unfolding q by simp
  have "py_round (2 ^ k / f32_quantum (2 ^ k)) = py_round (of_int (2 ^ 23))"
    by (simp only: d)
  also have "\<dots> = 2 ^ 23"
    by (rule py_round_of_int)
  finally have r: "py_round (2 ^ k / f32_quantum (2 ^ k)) = 2 ^ 23" .
  have y: "of_int (py_round (2 ^ k / f32_quantum (2 ^ k))) * f32_quantum (2 ^ k) = (2 ^ k :: real)"
    by (simp only: r) (simp add: q)
  have big: "(2 ^ 128 :: real) \<le> 2 ^ k"
    using assms by (intro power_increasing) simp_all
  have "f32_round (2 ^ k) = (if \<bar>2 ^ k :: real\<bar> \<ge> 2 ^ 128 then PInf else Fin (2 ^ k))"
    unfolding f32_round_def Let_def y by simp
  with big show ?thesis by simp
qed

lemma f32_round_0: "f32_round 0 = Fin 0"
  by (simp add: f32_round_def)

lemma f32_round_m1: "f32_round (- 1) = Fin (- 1)"
  by (rule f32_round_exact[where k = 0 and n = "- (2 ^ 23)"]) simp_all

lemmas f32_values = f32_round_0 f32_round_1 f32_round_m1 f32_round_4 f32_round_m20 f32_round_3_2

subsection \<open>The rows of the group information\<close>

text \<open>
  Every row that \<open>encode\<close> and \<open>decode\<close> pair with a datum is a tuple of one value per
  group-by column, and there is at least one column: no row is empty. So the test
  \<open>not group\<close> fails on every row, and the mean of every row is \<open>self._abs_mean\<close>.
\<close>

lemma zip_star_nonempty: "g \<in> set (zip_star cols) \<Longrightarrow> g \<noteq> []"
  by (auto simp: zip_star_def split: list.splits)

lemma group_rows_nonempty: "g \<in> set (group_rows n gi) \<Longrightarrow> g \<noteq> []"
  unfolding group_rows_def by (rule zip_star_nonempty)

lemma zip_group_rows_nonempty: "r \<in> set (zip data (group_rows n gi)) \<Longrightarrow> snd r \<noteq> []"
  by (metis group_rows_nonempty prod.collapse set_zip_rightD)

lemma resolve_mean_nonempty: "grp \<noteq> [] \<Longrightarrow> resolve_mean self grp = Inr (self_abs_mean self)"
  by (simp add: resolve_mean_def)

lemma group_rows_None: "group_rows n None = replicate n [GEmptySet]"
  by (simp add: group_rows_def default_group_info_def zip_star_def list_eq_iff_nth_eq)




lemma encode_target_normalizers:
  "grp \<noteq> [] \<Longrightarrow> encode_target (self \<lparr> normalizers := nm \<rparr>) rl grp = encode_target self rl grp"
  by (simp add: encode_target_def resolve_mean_nonempty sign_flag_def
      split: option.splits sum.splits)

lemma encode_row_normalizers:
  "grp \<noteq> [] \<Longrightarrow> encode_row pf (self \<lparr> normalizers := nm \<rparr>) d grp = encode_row pf self d grp"
  by (simp add: encode_row_def encode_target_normalizers encode_input_def input_vector_def
      sign_flag_def split: option.splits sum.splits)

lemma encode_rows_normalizers:
  "\<forall>r\<in>set rows. snd r \<noteq> [] \<Longrightarrow>
   encode_rows pf (self \<lparr> normalizers := nm \<rparr>) rows = encode_rows pf self rows"
  by (induction rows) (auto simp: encode_row_normalizers)

lemma encode_ignores_normalizers:
  "encode pf (self \<lparr> normalizers := nm \<rparr>) data extra_data = encode pf self data extra_data"
  unfolding encode_def using encode_rows_normalizers[of "zip data (group_rows (length data) extra_data)"]
  by (simp add: zip_group_rows_nonempty)

lemma log_magnitude_total: "\<exists>lm. log_magnitude r = Inr lm"
  by (cases r) (auto simp: log_magnitude_def fgt_def)

lemma log_magnitude_zero: "log_magnitude (Fin 0) = Inr (Fin (- 20))"
  by (simp add: log_magnitude_def fgt_def)

lemma encode_rows_target_nonpositive:
  assumes "is_target self" "self_abs_mean self = Some m" "\<not> fgt m (Fin 0)"
    and "\<forall>r\<in>set rows. snd r \<noteq> []"
  shows "encode_rows pf self rows =
           (map (\<lambda>r. Debug_cant_encode_target (coerce pf (fst r))) rows,
            Inr (map (\<lambda>r. [Fin 0, Fin 0, Fin 0]) rows))"
  using assms(4)
proof (induction rows)
  case Nil
  show ?case by simp
next
  case (Cons r rows)
  obtain d g where r: "r = (d, g)" by (cases r)
  with Cons.prems have g: "g \<noteq> []" by simp
  have row: "encode_row pf self d g =
      ([Debug_cant_encode_target (coerce pf d)], Inr [Fin 0, Fin 0, Fin 0])"
    using assms(1-3) g
    by (simp add: encode_row_def encode_target_def resolve_mean_nonempty zeros_def
        numeral_3_eq_3 split: option.splits)
  from Cons have "encode_rows pf self rows =
           (map (\<lambda>r. Debug_cant_encode_target (coerce pf (fst r))) rows,
            Inr (map (\<lambda>r. [Fin 0, Fin 0, Fin 0]) rows))" by simp
  with row r show ?case by simp
qed

subsection \<open>A mean that is not positive\<close>

text \<open>
  Claim C10. For a prepared target encoder whose mean is not strictly positive (zero,
  or NaN), \<open>encode\<close> returns the all-zero vector for every row, whatever the datum,
  and raises nothing: each row leaves one debug record only. The rows are the data
  paired with the rows of the group information.
\<close>

theorem encode_nonpositive_mean_zero_vectors:
  assumes "is_target self" and "prepared self"
    and "self_abs_mean self = Some m" and "\<not> fgt m (Fin 0)"
  shows "encode pf self data extra_data =
           (map (\<lambda>r. Debug_cant_encode_target (coerce pf (fst r)))
              (zip data (group_rows (length data) extra_data)),
            Inr (map (\<lambda>r. [Fin 0, Fin 0, Fin 0])
              (zip data (group_rows (length data) extra_data))))"
  using assms encode_rows_target_nonpositive[OF assms(1,3,4), of "zip data (group_rows (length data) extra_data)" pf]
  by (simp add: encode_def zip_group_rows_nonempty f32_round_0 comp_def)

text \<open>
  The theorem at two encoders: one primed on zeros only (mean \<open>0\<close>), one primed on no
  value but \<open>None\<close> (mean NaN).
\<close>

theorem encode_nonpositive_mean_zero_vectors_witness:
  "(case prepare (\<lambda>s. None) (TsNumericEncoder_init None True) [PNum (Fin 0), PNum (Fin 0)] of
      (l, Inr E) \<Rightarrow>
        is_target E \<and> prepared E \<and> self_abs_mean E = Some (Fin 0) \<and> \<not> fgt (Fin 0) (Fin 0) \<and>
        encode (\<lambda>s. None) E [PNum (Fin 5), PNum (Fin (- 3))] None =
          ([Debug_cant_encode_target (Some (Fin 5)), Debug_cant_encode_target (Some (Fin (- 3)))],
           Inr [[Fin 0, Fin 0, Fin 0], [Fin 0, Fin 0, Fin 0]])
    | (l, Inl e) \<Rightarrow> False) \<and>
   (case prepare (\<lambda>s. None) (TsNumericEncoder_init None True) [PNone] of
      (l, Inr E) \<Rightarrow>
        is_target E \<and> prepared E \<and> self_abs_mean E = Some NaN \<and> \<not> fgt NaN (Fin 0) \<and>
        encode (\<lambda>s. None) E [PNum (Fin 5)] None =
          ([Debug_cant_encode_target (Some (Fin 5))], Inr [[Fin 0, Fin 0, Fin 0]])
    | (l, Inl e) \<Rightarrow> False)"
proof -
  define E0 where "E0 = (TsNumericEncoder_init None True)
      \<lparr> value_type := Some ''int'', self_abs_mean := Some (Fin 0), prepared := True \<rparr>"
  define E1 where "E1 = (TsNumericEncoder_init None True)
      \<lparr> value_type := Some ''int'', self_abs_mean := Some NaN, prepared := True \<rparr>"
  have p0: "prepare (\<lambda>s. None) (TsNumericEncoder_init None True) [PNum (Fin 0), PNum (Fin 0)]
      = ([], Inr E0)"
    by (simp add: prepare_def TsNumericEncoder_init_def np_mean_def trunc_def E0_def)
  have p1: "prepare (\<lambda>s. None) (TsNumericEncoder_init None True) [PNone] = ([], Inr E1)"
    by (simp add: prepare_def TsNumericEncoder_init_def np_mean_def E1_def)
  have f0: "is_target E0" "prepared E0" "self_abs_mean E0 = Some (Fin 0)" "\<not> fgt (Fin 0) (Fin 0)"
    by (simp_all add: E0_def TsNumericEncoder_init_def fgt_def)
  have f1: "is_target E1" "prepared E1" "self_abs_mean E1 = Some NaN" "\<not> fgt NaN (Fin 0)"
    by (simp_all add: E1_def TsNumericEncoder_init_def fgt_def)
  have e0: "encode (\<lambda>s. None) E0 [PNum (Fin 5), PNum (Fin (- 3))] None =
          ([Debug_cant_encode_target (Some (Fin 5)), Debug_cant_encode_target (Some (Fin (- 3)))],
           Inr [[Fin 0, Fin 0, Fin 0], [Fin 0, Fin 0, Fin 0]])"
    using encode_nonpositive_mean_zero_vectors[OF f0, of "\<lambda>s. None" "[PNum (Fin 5), PNum (Fin (- 3))]" None]
    by (simp add: group_rows_None coerce_def numeral_2_eq_2)
  have e1: "encode (\<lambda>s. None) E1 [PNum (Fin 5)] None =
          ([Debug_cant_encode_target (Some (Fin 5))], Inr [[Fin 0, Fin 0, Fin 0]])"
    using encode_nonpositive_mean_zero_vectors[OF f1, of "\<lambda>s. None" "[PNum (Fin 5)]" None]
    by (simp add: group_rows_None coerce_def)
  show ?thesis
    unfolding p0 p1 using f0 f1 e0 e1 by simp
qed

subsection \<open>The group normalizers are never read\<close>

text \<open>
  Claim C1 says that a row with group information is scaled by the mean of the
  normalizer of its group, or of \<open>'__default'\<close> for a group without a normalizer. The
  code does not do so (lemma \<open>encode_ignores_normalizers\<close>). Here the encoder is primed
  on \<open>[2]\<close>, the normalizer of group \<open>a\<close> has mean \<open>4\<close> and the default one mean \<open>8\<close>:
  the value \<open>8\<close> is scaled to \<open>8 / 2 = 4\<close> both in group \<open>a\<close> (the claim: \<open>8 / 4 = 2\<close>)
  and in the unseen group \<open>z\<close> (the claim: \<open>8 / 8 = 1\<close>). The log-magnitude is the
  logarithm of \<open>8\<close> in single precision.
\<close>

theorem encode_never_reads_group_normalizer:
  "(case prepare (\<lambda>s. None)
           ((TsNumericEncoder_init None True)
              \<lparr> normalizers := Some [Group_key {''a''} \<mapsto> \<lparr> abs_mean = Some (Fin 4) \<rparr>,
                                     Default_key \<mapsto> \<lparr> abs_mean = Some (Fin 8) \<rparr>] \<rparr>)
           [PNum (Fin 2)] of
      (l, Inr E) \<Rightarrow>
        encode (\<lambda>s. None) E [PNum (Fin 8), PNum (Fin 8)]
            (Some [(''store'', [GVal ''a'', GVal ''z''])]) =
          ([], Inr [[Fin 0, to_float32 (Fin (ln 8)), Fin 4],
                    [Fin 0, to_float32 (Fin (ln 8)), Fin 4]])
    | (l, Inl e) \<Rightarrow> False)"
  by (simp add: prepare_def TsNumericEncoder_init_def np_mean_def trunc_def
      encode_def group_rows_def zip_star_def encode_row_def
      encode_target_def resolve_mean_def coerce_def fgt_def log_magnitude_def sign_flag_def
      f32_values)

subsection \<open>The log-magnitude of zero\<close>

lemma encode_row_zero_log:
  assumes "self_abs_mean self = Some m" and "is_target self \<Longrightarrow> fgt m (Fin 0)" and "g \<noteq> []"
  shows "\<exists>l v. encode_row pf self d g = (l, Inr v) \<and>
           (coerce pf d = Some (Fin 0) \<longrightarrow> map to_float32 v ! 1 = Fin (- 20))"
proof (cases "is_target self")
  case True
  with assms(2) have pos: "fgt m (Fin 0)" by simp
  show ?thesis
  proof (cases "coerce pf d")
    case None
    with True assms(1,3) show ?thesis
      by (simp add: encode_row_def encode_target_def resolve_mean_nonempty)
  next
    case (Some r)
    obtain lm where lm: "log_magnitude r = Inr lm"
      using log_magnitude_total by blast
    have "r = Fin 0 \<Longrightarrow> lm = Fin (- 20)"
      using lm by (simp add: log_magnitude_zero)
    with True Some pos lm assms(1,3) show ?thesis
      by (auto simp: encode_row_def encode_target_def resolve_mean_nonempty f32_round_m20)
  qed
next
  case False
  show ?thesis
  proof (cases "coerce pf d")
    case None
    with False show ?thesis
      by (simp add: encode_row_def encode_input_def)
  next
    case (Some r)
    obtain lm where lm: "log_magnitude r = Inr lm"
      using log_magnitude_total by blast
    have "r = Fin 0 \<Longrightarrow> lm = Fin (- 20)"
      using lm by (simp add: log_magnitude_zero)
    with False Some lm assms(1) show ?thesis
      by (auto simp: encode_row_def encode_input_def input_vector_def f32_round_m20)
  qed
qed

lemma encode_rows_zero_log:
  assumes "self_abs_mean self = Some m" and "is_target self \<Longrightarrow> fgt m (Fin 0)"
    and "\<forall>r\<in>set rs. snd r \<noteq> []"
  shows "\<exists>l vs. encode_rows pf self rs = (l, Inr vs) \<and> length vs = length rs \<and>
           (\<forall>i<length rs. coerce pf (fst (rs ! i)) = Some (Fin 0) \<longrightarrow>
              map (map to_float32) vs ! i ! 1 = Fin (- 20))"
  using assms(3)
proof (induction rs)
  case Nil
  show ?case by simp
next
  case (Cons r rs)
  obtain d g where r: "r = (d, g)" by (cases r)
  with Cons.prems have g: "g \<noteq> []" by simp
  obtain l v where row: "encode_row pf self d g = (l, Inr v)"
    and v: "coerce pf d = Some (Fin 0) \<longrightarrow> map to_float32 v ! 1 = Fin (- 20)"
    using encode_row_zero_log[OF assms(1,2) g] by blast
  obtain l' vs where rest: "encode_rows pf self rs = (l', Inr vs)"
    and len: "length vs = length rs"
    and vs: "\<forall>i<length rs. coerce pf (fst (rs ! i)) = Some (Fin 0) \<longrightarrow>
        map (map to_float32) vs ! i ! 1 = Fin (- 20)"
    using Cons by auto
  have "encode_rows pf self (r # rs) = (l @ l', Inr (v # vs))"
    using r row rest by simp
  moreover have "\<forall>i<length (r # rs). coerce pf (fst ((r # rs) ! i)) = Some (Fin 0)
        \<longrightarrow> map (map to_float32) (v # vs) ! i ! 1 = Fin (- 20)"
  proof (intro allI impI)
    fix i assume "i < length (r # rs)" and c: "coerce pf (fst ((r # rs) ! i)) = Some (Fin 0)"
    then show "map (map to_float32) (v # vs) ! i ! 1 = Fin (- 20)"
      using v vs r by (cases i) auto
  qed
  ultimately show ?case using len by auto
qed

text \<open>
  Claim C9, as stated, fails: a target encoder primed on zeros only has mean \<open>0\<close>, the
  guard \<open>mean > 0\<close> fails, and the value \<open>0\<close> encodes to the all-zero vector, whose
  log-magnitude component is \<open>0\<close> and not \<open>-20\<close>.
\<close>

theorem encode_zero_mean_target_counterexample:
  "(case prepare (\<lambda>s. None) (TsNumericEncoder_init None True) [PNum (Fin 0)] of
      (l, Inr E) \<Rightarrow>
        is_target E \<and> prepared E \<and>
        (case encode (\<lambda>s. None) E [PNum (Fin 0)] None of
           (l', Inr vs) \<Rightarrow> vs ! 0 ! 1 = Fin 0 \<and> vs ! 0 ! 1 \<noteq> Fin (- 20)
         | (l', Inl e) \<Rightarrow> False)
    | (l, Inl e) \<Rightarrow> False)"
  by (simp add: prepare_def TsNumericEncoder_init_def np_mean_def trunc_def
      encode_def group_rows_def default_group_info_def zip_star_def encode_row_def
      encode_target_def resolve_mean_def coerce_def fgt_def zeros_def numeral_3_eq_3
      f32_values)

text \<open>
  Claim C9, amended. For a prepared encoder, a target encoder's mean being strictly
  positive, \<open>encode\<close> returns one vector per row, and the log-magnitude component
  (index 1 in both layouts) of every row whose datum coerces to \<open>0\<close> is exactly \<open>-20\<close>.
  The non-target layout needs no condition on the mean.
\<close>

theorem encode_zero_log_magnitude:
  assumes "prepared self" and "self_abs_mean self = Some m"
    and "is_target self \<Longrightarrow> fgt m (Fin 0)"
  shows "\<exists>l vs. encode pf self data extra_data = (l, Inr vs) \<and>
           length vs = min (length data) (length (group_rows (length data) extra_data)) \<and>
           (\<forall>i<length vs. coerce pf (data ! i) = Some (Fin 0) \<longrightarrow> vs ! i ! 1 = Fin (- 20))"
proof -
  let ?rs = "zip data (group_rows (length data) extra_data)"
  have "\<forall>r\<in>set ?rs. snd r \<noteq> []"
    by (simp add: zip_group_rows_nonempty)
  from encode_rows_zero_log[OF assms(2,3) this, of pf]
  obtain l ret where e: "encode_rows pf self ?rs = (l, Inr ret)" and len: "length ret = length ?rs"
    and z: "\<forall>i<length ?rs. coerce pf (fst (?rs ! i)) = Some (Fin 0) \<longrightarrow>
               map (map to_float32) ret ! i ! 1 = Fin (- 20)"
    by blast
  let ?vs = "map (map to_float32) ret"
  have "encode pf self data extra_data = (l, Inr ?vs)"
    using assms(1) e by (simp add: encode_def)
  moreover have "\<forall>i<length ?vs. coerce pf (data ! i) = Some (Fin 0) \<longrightarrow> ?vs ! i ! 1 = Fin (- 20)"
    using z len by simp
  ultimately show ?thesis using len by simp
qed

text \<open>
  The theorem at a target encoder primed on \<open>[2]\<close> and at a non-target encoder primed
  on \<open>[0]\<close>.
\<close>

theorem encode_zero_log_magnitude_witness:
  "(case prepare (\<lambda>s. None) (TsNumericEncoder_init None True) [PNum (Fin 2)] of
      (l, Inr E) \<Rightarrow>
        prepared E \<and> is_target E \<and> self_abs_mean E = Some (Fin 2) \<and> fgt (Fin 2) (Fin 0) \<and>
        coerce (\<lambda>s. None) (PNum (Fin 0)) = Some (Fin 0) \<and>
        encode (\<lambda>s. None) E [PNum (Fin 0)] None = ([], Inr [[Fin 0, Fin (- 20), Fin 0]])
    | (l, Inl e) \<Rightarrow> False) \<and>
   (case prepare (\<lambda>s. None) (TsNumericEncoder_init None False) [PNum (Fin 0)] of
      (l, Inr E) \<Rightarrow>
        prepared E \<and> \<not> is_target E \<and> self_abs_mean E = Some (Fin 0) \<and>
        encode (\<lambda>s. None) E [PNum (Fin 0)] None = ([], Inr [[Fin 1, Fin (- 20), Fin 0, NaN]])
    | (l, Inl e) \<Rightarrow> False)"
proof -
  define E0 where "E0 = (TsNumericEncoder_init None True)
      \<lparr> value_type := Some ''int'', self_abs_mean := Some (Fin 2), prepared := True \<rparr>"
  define E1 where "E1 = (TsNumericEncoder_init None False)
      \<lparr> value_type := Some ''int'', self_abs_mean := Some (Fin 0), prepared := True \<rparr>"
  have p0: "prepare (\<lambda>s. None) (TsNumericEncoder_init None True) [PNum (Fin 2)] = ([], Inr E0)"
    by (simp add: prepare_def TsNumericEncoder_init_def np_mean_def trunc_def E0_def)
  have p1: "prepare (\<lambda>s. None) (TsNumericEncoder_init None False) [PNum (Fin 0)] = ([], Inr E1)"
    by (simp add: prepare_def TsNumericEncoder_init_def np_mean_def trunc_def E1_def)
  have f0: "prepared E0" "self_abs_mean E0 = Some (Fin 2)" "is_target E0 \<Longrightarrow> fgt (Fin 2) (Fin 0)"
    by (simp_all add: E0_def TsNumericEncoder_init_def fgt_def)
  have f1: "prepared E1" "self_abs_mean E1 = Some (Fin 0)" "is_target E1 \<Longrightarrow> fgt (Fin 0) (Fin 0)"
    by (simp_all add: E1_def TsNumericEncoder_init_def)
  have t0: "is_target E0" and t1: "\<not> is_target E1"
    by (simp_all add: E0_def E1_def TsNumericEncoder_init_def)
  have c: "coerce (\<lambda>s. None) (PNum (Fin 0)) = Some (Fin 0)"
    by (simp add: coerce_def)
  obtain l vs where e0: "encode (\<lambda>s. None) E0 [PNum (Fin 0)] None = (l, Inr vs)"
    and n0: "length vs = 1" and z0: "vs ! 0 ! 1 = Fin (- 20)"
    using encode_zero_log_magnitude[OF f0, of "\<lambda>s. None" "[PNum (Fin 0)]" None] c
    by (auto simp: group_rows_None)
  have "encode (\<lambda>s. None) E0 [PNum (Fin 0)] None = ([], Inr [[Fin 0, Fin (- 20), Fin 0]])"
    by (simp add: encode_def E0_def TsNumericEncoder_init_def group_rows_None encode_row_def
        encode_target_def resolve_mean_def coerce_def fgt_def log_magnitude_def sign_flag_def
        f32_values)
  with e0 z0 have r0: "encode (\<lambda>s. None) E0 [PNum (Fin 0)] None =
      ([], Inr [[Fin 0, vs ! 0 ! 1, Fin 0]])"
    by simp
  obtain l' vs' where e1: "encode (\<lambda>s. None) E1 [PNum (Fin 0)] None = (l', Inr vs')"
    and z1: "vs' ! 0 ! 1 = Fin (- 20)"
    using encode_zero_log_magnitude[OF f1, of "\<lambda>s. None" "[PNum (Fin 0)]" None] c
    by (auto simp: group_rows_None)
  have "encode (\<lambda>s. None) E1 [PNum (Fin 0)] None = ([], Inr [[Fin 1, Fin (- 20), Fin 0, NaN]])"
    by (simp add: encode_def E1_def TsNumericEncoder_init_def group_rows_None encode_row_def
        encode_input_def input_vector_def coerce_def fgt_def log_magnitude_def sign_flag_def
        f32_values)
  with e1 z1 have r1: "encode (\<lambda>s. None) E1 [PNum (Fin 0)] None =
      ([], Inr [[Fin 1, vs' ! 0 ! 1, Fin 0, NaN]])"
    by simp
  show ?thesis
    unfolding p0 p1 using f0(1,2) f1(1,2) t0 t1 c r0 r1 z0 z1 by (simp add: fgt_def)
qed

subsection \<open>Decoding what was encoded\<close>

lemma f32_round_raw_error:
  assumes "v \<noteq> 0"
  shows "\<bar>of_int (py_round (v / f32_quantum v)) * f32_quantum v - v\<bar>
           \<le> \<bar>v\<bar> / 2 ^ 24 + 1 / 2 ^ 150"
proof -
  let ?q = "f32_quantum v"
  let ?y = "of_int (py_round (v / ?q)) * ?q"
  have q: "0 < ?q" by (rule f32_quantum_pos)
  have "?y - v = (of_int (py_round (v / ?q)) - v / ?q) * ?q"
    using q by (simp add: field_simps)
  then have "\<bar>?y - v\<bar> = \<bar>of_int (py_round (v / ?q)) - v / ?q\<bar> * ?q"
    using q by (simp add: abs_mult)
  also have "\<dots> \<le> 1 / 2 * ?q"
    using py_round_error[of "v / ?q"] q by (intro mult_right_mono) simp_all
  also have "\<dots> \<le> 1 / 2 * (\<bar>v\<bar> / 2 ^ 23 + 1 / 2 ^ 149)"
    using f32_quantum_bound[OF assms] by simp
  also have "\<dots> = \<bar>v\<bar> / 2 ^ 24 + 1 / 2 ^ 150"
    by simp
  finally show ?thesis .
qed

lemma f32_round_in_range:
  assumes "\<bar>v\<bar> < 2 ^ 127"
  shows "is_finite (f32_round v)"
proof (cases "v = 0")
  case True
  then show ?thesis by (simp add: f32_round_def)
next
  case False
  let ?y = "of_int (py_round (v / f32_quantum v)) * f32_quantum v"
  have e: "\<bar>?y - v\<bar> \<le> \<bar>v\<bar> / 2 ^ 24 + 1 / 2 ^ 150"
    by (rule f32_round_raw_error[OF False])
  have "\<bar>v\<bar> / 2 ^ 24 < 2 ^ 127 / 2 ^ 24"
    using assms by (intro divide_strict_right_mono) simp_all
  then have "\<bar>v\<bar> / 2 ^ 24 < 2 ^ 103" by simp
  moreover have "(1::real) / 2 ^ 150 \<le> 1" by simp
  moreover have "\<bar>?y\<bar> \<le> \<bar>v\<bar> + \<bar>?y - v\<bar>" by linarith
  ultimately have "\<bar>?y\<bar> < 2 ^ 127 + 2 ^ 103 + 1"
    using assms e by linarith
  then have "\<bar>?y\<bar> < 2 ^ 128" by simp
  then show ?thesis
    using False by (simp add: f32_round_def Let_def)
qed






text \<open>
  What the single precision of the encoded vectors costs: an encoder of type
  \<open>'int'\<close> primed on \<open>[1]\<close> returns \<open>16777216\<close> for the value \<open>16777217\<close>, which has 25
  significant bits; an encoder of declared type \<open>'float'\<close> primed on \<open>[1]\<close> returns
  the positive infinity for \<open>2^128\<close>, a finite double beyond single precision.
\<close>

lemma f32_round_16777217: "f32_round 16777217 = Fin 16777216"
proof -
  have q: "f32_quantum 16777217 = 2"
    using f32_quantum_binade[of 24 16777217] by simp
  have r: "py_round (16777217 / 2) = 8388608"
  proof -
    have f: "\<lfloor>16777217 / 2 :: real\<rfloor> = 8388608"
      by linarith
    show ?thesis
      unfolding py_round_def Let_def f by simp
  qed
  show ?thesis
    unfolding f32_round_def Let_def q r by simp
qed

lemma decode_encode_precision_example:
  "(case prepare (\<lambda>s. None) (TsNumericEncoder_init None False) [PNum (Fin 1)] of
      (l, Inr E) \<Rightarrow>
        (case encode (\<lambda>s. None) E [PNum (Fin 16777217)] None of
           (l', Inr vs) \<Rightarrow> decode E vs None None = ([], Inr [DInt 16777216])
         | (l', Inl e) \<Rightarrow> False)
    | (l, Inl e) \<Rightarrow> False)"
proof -
  have r: "py_round 16777216 = 16777216"
    using py_round_of_int[of 16777216] by simp
  show ?thesis
    by (simp add: prepare_def TsNumericEncoder_init_def np_mean_def trunc_def
      encode_def decode_def group_rows_def default_group_info_def zip_star_def encode_row_def
      decode_row_def decode_input_def nth_py_def numeral_3_eq_3
      encode_input_def input_vector_def coerce_def fgt_def log_magnitude_def sign_flag_def
      f32_values f32_round_16777217 r)
qed

lemma decode_encode_overflow_example:
  "(case prepare (\<lambda>s. None) (TsNumericEncoder_init (Some ''float'') False) [PNum (Fin 1)] of
      (l, Inr E) \<Rightarrow>
        (case encode (\<lambda>s. None) E [PNum (Fin (2 ^ 128))] None of
           (l', Inr vs) \<Rightarrow> decode E vs None None = ([], Inr [DFloat PInf])
         | (l', Inl e) \<Rightarrow> False)
    | (l, Inl e) \<Rightarrow> False)"
proof -
  have o: "f32_round 340282366920938463463374607431768211456 = PInf"
    using f32_round_power_overflow[of 128] by simp
  show ?thesis
    by (simp add: prepare_def TsNumericEncoder_init_def np_mean_def trunc_def
      encode_def decode_def group_rows_def default_group_info_def zip_star_def encode_row_def
      decode_row_def decode_input_def nth_py_def numeral_3_eq_3
      encode_input_def input_vector_def coerce_def fgt_def log_magnitude_def sign_flag_def
      f32_values o)
qed




subsection \<open>Decoding a vector with a component that is not finite\<close>

text \<open>
  A NaN or a positive infinity among the first three components of a target vector is
  detected, and the vector decodes to \<open>10^63\<close>.
\<close>

lemma is_weird_vector_hit:
  assumes "3 \<le> length v" and "weird (v ! 0) \<or> weird (v ! 1) \<or> weird (v ! 2)"
  shows "is_weird_vector v = Inr True"
  using assms by (auto simp: is_weird_vector_def nth_py_def)

lemma decode_target_weird:
  assumes "3 \<le> length v" and "weird (v ! 0) \<or> weird (v ! 1) \<or> weird (v ! 2)"
  shows "decode_target self dlog v grp = ([Error_weird_target v], Inr (DInt (10 ^ 63)))"
  using is_weird_vector_hit[OF assms] by (simp add: decode_target_def sentinel_def)

lemma weird_iff: "weird a \<longleftrightarrow> a = NaN \<or> a = PInf"
  by (cases a) (simp_all add: weird_def)

text \<open>
  Claim C6 says the same of every infinite component. The test compares with
  \<open>float('inf')\<close> only, and a negative infinity passes it: on the vector
  \<open>[0, 0, -inf]\<close> a target encoder of type \<open>'int'\<close> raises \<open>OverflowError\<close> (from
  \<open>int(-inf)\<close>), and one of type \<open>'float'\<close> returns \<open>-inf\<close> and no sentinel.
\<close>

theorem decode_negative_infinity_not_detected:
  "(case prepare (\<lambda>s. None) (TsNumericEncoder_init None True) [PNum (Fin 1)] of
      (l, Inr E) \<Rightarrow>
        is_target E \<and> prepared E \<and> value_type E = Some ''int'' \<and>
        decode E [[Fin 0, Fin 0, NInf]] None None = ([], Inl OverflowError)
    | (l, Inl e) \<Rightarrow> False) \<and>
   (case prepare (\<lambda>s. None) (TsNumericEncoder_init (Some ''float'') True) [PNum (Fin 1)] of
      (l, Inr E) \<Rightarrow>
        is_target E \<and> prepared E \<and> value_type E = Some ''float'' \<and>
        decode E [[Fin 0, Fin 0, NInf]] None None = ([], Inr [DFloat NInf])
    | (l, Inl e) \<Rightarrow> False)"
  by (simp add: prepare_def TsNumericEncoder_init_def np_mean_def trunc_def
      decode_def group_rows_def default_group_info_def zip_star_def
      decode_row_def decode_target_def is_weird_vector_def weird_def nth_py_def
      decode_by_mean_def resolve_mean_def numeral_2_eq_2)

section \<open>Properties of get_delta\<close>

subsection \<open>The first entry of a ranking by count\<close>

lemma ranks_by_count_head:
  assumes "ranks_by_count sort_values kcs" and "sort_values kcs = h # t"
  shows "h \<in> set kcs" and "\<forall>x\<in>set kcs. snd x \<le> snd h"
proof -
  from assms have s: "set kcs = set (h # t)" and o: "sorted (rev (map snd (h # t)))"
    by (simp_all add: ranks_by_count_def)
  show "h \<in> set kcs"
    using s by simp
  from o have "\<forall>y\<in>set (map snd t). y \<le> snd h"
    by (simp add: sorted_append)
  then show "\<forall>x\<in>set kcs. snd x \<le> snd h"
    using s by auto
qed

lemma ranks_by_count_Nil:
  assumes "ranks_by_count sort_values []"
  shows "sort_values [] = []"
  using assms by (simp add: ranks_by_count_def)

lemma rising_reversed_ranks: "ranks_by_count rising_reversed kcs"
  by (simp add: ranks_by_count_def rising_reversed_def rev_map[symmetric])

lemma set_first_seen: "set (first_seen xs) = set xs"
  by (induction xs) auto

lemma value_counts_head:
  assumes "\<And>kcs. ranks_by_count sort_values kcs"
    and "value_counts sort_values xs = kc # rest"
  defines "ys \<equiv> filter (\<lambda>x. \<not> isnan x) xs"
  shows "fst kc \<in> set ys"
    and "\<forall>x\<in>set ys. count_list ys x \<le> count_list ys (fst kc)"
proof -
  let ?g = "\<lambda>k. (k, count_list ys k)"
  let ?L = "map ?g (first_seen ys)"
  have s: "sort_values ?L = kc # rest"
    using assms(2) by (simp add: value_counts_def ys_def Let_def)
  note H = ranks_by_count_head[OF assms(1) s]
  from H(1) have kc: "kc = ?g (fst kc)" and mem: "fst kc \<in> set ys"
    by (auto simp: set_first_seen)
  show "fst kc \<in> set ys" by (rule mem)
  show "\<forall>x\<in>set ys. count_list ys x \<le> count_list ys (fst kc)"
  proof
    fix x assume "x \<in> set ys"
    then have "?g x \<in> set ?L" by (simp add: set_first_seen)
    with H(2) have "snd (?g x) \<le> snd kc" by blast
    with kc show "count_list ys x \<le> count_list ys (fst kc)"
      by (metis snd_conv)
  qed
qed

lemma infer_delta_mode:
  assumes "\<And>kcs. ranks_by_count sort_values kcs"
    and "infer_delta sort_values series = Inr d"
  defines "ds \<equiv> filter (\<lambda>x. \<not> isnan x) (rolling_diff series)"
  shows "d \<in> set ds"
    and "\<forall>x\<in>set ds. count_list ds x \<le> count_list ds d"
    and "value_counts sort_values (rolling_diff series) \<noteq> []"
    and "d = fst (hd (value_counts sort_values (rolling_diff series)))"
proof -
  from assms(2) obtain kc rest
    where vc: "value_counts sort_values (rolling_diff series) = kc # rest"
      and d: "d = fst kc"
    by (auto simp: infer_delta_def split: list.splits)
  show "d \<in> set ds" and "\<forall>x\<in>set ds. count_list ds x \<le> count_list ds d"
    using value_counts_head[OF assms(1) vc] unfolding d ds_def by blast+
  show "value_counts sort_values (rolling_diff series) \<noteq> []"
    and "d = fst (hd (value_counts sort_values (rolling_diff series)))"
    using vc d by simp_all
qed

text \<open>
  Without a difference that is a number (a series of fewer than two rows, or one
  whose neighbours are never both finite) there is nothing to rank, whatever the sort.
\<close>

lemma infer_delta_no_difference:
  assumes "ranks_by_count sort_values []"
    and "\<forall>x\<in>set (rolling_diff series). isnan x"
  shows "infer_delta sort_values series = Inl IndexError"
proof -
  have "filter (\<lambda>x. \<not> isnan x) (rolling_diff series) = []"
    using assms(2) by (simp add: filter_empty_conv)
  then show ?thesis
    using ranks_by_count_Nil[OF assms(1)] by (simp add: infer_delta_def value_counts_def)
qed

lemma infer_delta_infinite_example:
  "infer_delta rising_reversed [Fin 0, PInf] = Inl IndexError"
  by (simp add: infer_delta_def value_counts_def rising_reversed_def)

lemma default_deltas_entries:
  assumes "default_deltas sort_values df cols d0 = Inr d'"
  shows "(\<forall>c\<in>set cols. \<exists>series delta. series_of df c = Inr series \<and>
            infer_delta sort_values series = Inr delta \<and> d' c = Some delta) \<and>
         (\<forall>c. c \<notin> set cols \<longrightarrow> d' c = d0 c)"
  using assms
proof (induction cols arbitrary: d0)
  case Nil
  then show ?case by simp
next
  case (Cons col cols)
  from Cons.prems obtain series delta where s: "series_of df col = Inr series"
    and i: "infer_delta sort_values series = Inr delta"
    and r: "default_deltas sort_values df cols (d0(col \<mapsto> delta)) = Inr d'"
    by (auto split: sum.splits)
  note IH = Cons.IH[OF r]
  show ?case
  proof (intro conjI ballI allI impI)
    fix c assume "c \<in> set (col # cols)"
    show "\<exists>series delta. series_of df c = Inr series \<and>
        infer_delta sort_values series = Inr delta \<and> d' c = Some delta"
    proof (cases "c \<in> set cols")
      case True
      with IH show ?thesis by blast
    next
      case False
      with \<open>c \<in> set (col # cols)\<close> have "c = col" by simp
      with False IH s i show ?thesis by auto
    qed
  next
    fix c assume "c \<notin> set (col # cols)"
    with IH show "d' c = d0 c" by auto
  qed
qed

lemma all_group_deltas_default:
  "all_group_deltas sort_values ggm df info gs cols deltas = Inr deltas' \<Longrightarrow>
   deltas' Default_group = deltas Default_group"
  by (induction gs arbitrary: deltas) (auto split: if_splits sum.splits)

lemma get_delta_default:
  assumes "get_delta sort_values ggm df info gcs cols = Inr deltas"
  shows "\<exists>d. default_deltas sort_values df cols Map.empty = Inr d \<and>
           deltas Default_group = Some d"
proof -
  from assms obtain d where d: "default_deltas sort_values df cols Map.empty = Inr d"
    by (auto simp: get_delta_def split: sum.splits)
  show ?thesis
  proof (cases "has_group_info info")
    case True
    with assms d
    have "all_group_deltas sort_values ggm df info gcs cols [Default_group \<mapsto> d] = Inr deltas"
      by (simp add: get_delta_def)
    from all_group_deltas_default[OF this] d show ?thesis by simp
  next
    case False
    with assms d show ?thesis by (auto simp: get_delta_def)
  qed
qed

subsection \<open>The default delta is the most frequent difference\<close>

lemma rolling_diff_tie_example:
  "rolling_diff [Fin 0, Fin 1, Fin 3, Fin 6, Fin 9, Fin 13, Fin 17] =
     [NaN, Fin 1, Fin 2, Fin 3, Fin 3, Fin 4, Fin 4]"
  by (simp add: fsub_def)

text \<open>
  Claim C7, as stated, fails on its tie-break. The series \<open>[0, 1, 3, 6, 9, 13, 17]\<close>
  has the differences \<open>1, 2, 3, 3, 4, 4\<close>: \<open>3\<close> and \<open>4\<close> both occur twice and \<open>3\<close> is met
  first, but with the ranking that sorts by rising count and reverses, the first key
  is \<open>4\<close>, and \<open>4\<close> is the delta.
\<close>

theorem get_delta_tie_counterexample:
  "(\<forall>kcs. ranks_by_count rising_reversed kcs) \<and>
   get_delta rising_reversed (\<lambda>i g. Inr [])
     [''t'' \<mapsto> [[Fin 0], [Fin 1], [Fin 3], [Fin 6], [Fin 9], [Fin 13], [Fin 17]]]
     \<lparr> info_group_info = None, info_data = [] \<rparr> [Default_group] [''t'']
     = Inr [Default_group \<mapsto> [''t'' \<mapsto> Fin 4]] \<and>
   filter (\<lambda>x. \<not> isnan x) (rolling_diff [Fin 0, Fin 1, Fin 3, Fin 6, Fin 9, Fin 13, Fin 17])
     = [Fin 1, Fin 2, Fin 3, Fin 3, Fin 4, Fin 4] \<and>
   count_list [Fin 1, Fin 2, Fin 3, Fin 3, Fin 4, Fin 4] (Fin 3)
     = count_list [Fin 1, Fin 2, Fin 3, Fin 3, Fin 4, Fin 4] (Fin 4) \<and>
   Fin 3 \<in> set (takeWhile (\<lambda>y. y \<noteq> Fin 4) [Fin 1, Fin 2, Fin 3, Fin 3, Fin 4, Fin 4])"
proof -
  let ?df = "[''t'' \<mapsto> [[Fin 0], [Fin 1], [Fin 3], [Fin 6], [Fin 9], [Fin 13], [Fin 17]]]"
  let ?S = "[Fin 0, Fin 1, Fin 3, Fin 6, Fin 9, Fin 13, Fin 17]"
  let ?ds = "[Fin 1, Fin 2, Fin 3, Fin 3, Fin 4, Fin 4]"
  have S: "series_of ?df ''t'' = Inr ?S"
    by (simp add: series_of_def)
  have ds: "filter (\<lambda>x. \<not> isnan x) (rolling_diff ?S) = ?ds"
    unfolding rolling_diff_tie_example by simp
  have vc: "value_counts rising_reversed (rolling_diff ?S)
      = [(Fin 4, 2), (Fin 3, 2), (Fin 2, 1), (Fin 1, 1)]"
    unfolding value_counts_def ds Let_def by (simp add: rising_reversed_def)
  have id: "infer_delta rising_reversed ?S = Inr (Fin 4)"
    unfolding infer_delta_def vc by simp
  have E: "get_delta rising_reversed (\<lambda>i g. Inr []) ?df
      \<lparr> info_group_info = None, info_data = [] \<rparr>
      [Default_group] [''t''] = Inr [Default_group \<mapsto> [''t'' \<mapsto> Fin 4]]"
    by (simp add: get_delta_def S id has_group_info_def)
  have c: "count_list ?ds (Fin 3) = count_list ?ds (Fin 4)"
    by simp
  have m: "Fin 3 \<in> set (takeWhile (\<lambda>y. y \<noteq> Fin 4) ?ds)"
    by simp
  from rising_reversed_ranks E ds c m show ?thesis by blast
qed

text \<open>
  Claim C7, amended. Let the sort of the counts return, for every list, the same
  entries with falling counts. When \<open>get_delta\<close> returns, the entry of \<open>'__default'\<close>
  holds, for every ordering column, a value \<open>d\<close> of the differences of consecutive rows
  (NaN dropped) that no other difference outnumbers: \<open>d\<close> is a mode of the differences,
  and among the differences of the highest count it is the one that the ranking lists
  first, which need not be the one met first in the series.
\<close>

theorem get_delta_default_is_mode:
  assumes "\<forall>kcs. ranks_by_count sort_values kcs"
    and "get_delta sort_values ggm df info gcs order_cols = Inr deltas"
    and "col \<in> set order_cols"
  shows "\<exists>dd series d. deltas Default_group = Some dd \<and> dd col = Some d \<and>
           series_of df col = Inr series \<and>
           d \<in> set (filter (\<lambda>x. \<not> isnan x) (rolling_diff series)) \<and>
           (\<forall>x\<in>set (filter (\<lambda>x. \<not> isnan x) (rolling_diff series)).
              count_list (filter (\<lambda>x. \<not> isnan x) (rolling_diff series)) x
                \<le> count_list (filter (\<lambda>x. \<not> isnan x) (rolling_diff series)) d) \<and>
           value_counts sort_values (rolling_diff series) \<noteq> [] \<and>
           d = fst (hd (value_counts sort_values (rolling_diff series)))"
proof -
  have r: "ranks_by_count sort_values kcs" for kcs
    using assms(1) by simp
  from get_delta_default[OF assms(2)] obtain dd
    where dd: "default_deltas sort_values df order_cols Map.empty = Inr dd"
      and D: "deltas Default_group = Some dd"
    by blast
  from default_deltas_entries[OF dd] assms(3) obtain series d
    where s: "series_of df col = Inr series" and i: "infer_delta sort_values series = Inr d"
      and c: "dd col = Some d"
    by blast
  from infer_delta_mode[OF r i] D c s show ?thesis by blast
qed

text \<open>
  The series \<open>[0, 1, 2, 3, 10, 11, 12]\<close> has the differences \<open>1, 1, 1, 7, 1, 1\<close>, of
  which the mean is \<open>2\<close>: its delta is \<open>1\<close> with every sort that ranks by count.
\<close>

lemma rolling_diff_example:
  "rolling_diff [Fin 0, Fin 1, Fin 2, Fin 3, Fin 10, Fin 11, Fin 12] =
     [NaN, Fin 1, Fin 1, Fin 1, Fin 7, Fin 1, Fin 1]"
  by (simp add: fsub_def)

lemma get_delta_example:
  assumes "\<And>kcs. ranks_by_count sort_values kcs"
  shows "get_delta sort_values (\<lambda>i g. Inr [])
     [''t'' \<mapsto> [[Fin 0], [Fin 1], [Fin 2], [Fin 3], [Fin 10], [Fin 11], [Fin 12]]]
     \<lparr> info_group_info = None, info_data = [] \<rparr> [Default_group] [''t'']
     = Inr [Default_group \<mapsto> [''t'' \<mapsto> Fin 1]]"
proof -
  let ?df = "[''t'' \<mapsto> [[Fin 0], [Fin 1], [Fin 2], [Fin 3], [Fin 10], [Fin 11], [Fin 12]]]"
  let ?S = "[Fin 0, Fin 1, Fin 2, Fin 3, Fin 10, Fin 11, Fin 12]"
  let ?ds = "[Fin 1, Fin 1, Fin 1, Fin 7, Fin 1, Fin 1]"
  let ?L = "[(Fin 1, 5 :: nat), (Fin 7, 1)]"
  have S: "series_of ?df ''t'' = Inr ?S"
    by (simp add: series_of_def)
  have ds: "filter (\<lambda>x. \<not> isnan x) (rolling_diff ?S) = ?ds"
    unfolding rolling_diff_example by simp
  have vc: "value_counts sort_values (rolling_diff ?S) = sort_values ?L"
    unfolding value_counts_def ds Let_def by (simp add: eval_nat_numeral)
  have "set (sort_values ?L) = set ?L"
    using assms[of ?L] by (simp add: ranks_by_count_def)
  then obtain h t where ht: "sort_values ?L = h # t"
    by (cases "sort_values ?L") auto
  from ranks_by_count_head[OF assms ht] have "h = (Fin 1, 5)"
    by auto
  then have id: "infer_delta sort_values ?S = Inr (Fin 1)"
    unfolding infer_delta_def vc ht by simp
  show ?thesis
    by (simp add: get_delta_def S id has_group_info_def)
qed

text \<open>The theorem at that series, with the ranking that sorts by rising count and reverses.\<close>

theorem get_delta_default_is_mode_witness:
  "(\<forall>kcs. ranks_by_count rising_reversed kcs) \<and>
   get_delta rising_reversed (\<lambda>i g. Inr [])
     [''t'' \<mapsto> [[Fin 0], [Fin 1], [Fin 2], [Fin 3], [Fin 10], [Fin 11], [Fin 12]]]
     \<lparr> info_group_info = None, info_data = [] \<rparr> [Default_group] [''t'']
     = Inr [Default_group \<mapsto> [''t'' \<mapsto> Fin 1]] \<and>
   ''t'' \<in> set [''t''] \<and>
   series_of [''t'' \<mapsto> [[Fin 0], [Fin 1], [Fin 2], [Fin 3], [Fin 10], [Fin 11], [Fin 12]]] ''t''
     = Inr [Fin 0, Fin 1, Fin 2, Fin 3, Fin 10, Fin 11, Fin 12] \<and>
   filter (\<lambda>x. \<not> isnan x) (rolling_diff [Fin 0, Fin 1, Fin 2, Fin 3, Fin 10, Fin 11, Fin 12])
     = [Fin 1, Fin 1, Fin 1, Fin 7, Fin 1, Fin 1] \<and>
   count_list [Fin 1, Fin 1, Fin 1, Fin 7, Fin 1, Fin 1] (Fin 7)
     \<le> count_list [Fin 1, Fin 1, Fin 1, Fin 7, Fin 1, Fin 1] (Fin 1) \<and>
   Fin 1 = fst (hd (value_counts rising_reversed
     (rolling_diff [Fin 0, Fin 1, Fin 2, Fin 3, Fin 10, Fin 11, Fin 12]))) \<and>
   np_mean [Fin 1, Fin 1, Fin 1, Fin 7, Fin 1, Fin 1] = Fin 2"
proof -
  let ?df = "[''t'' \<mapsto> [[Fin 0], [Fin 1], [Fin 2], [Fin 3], [Fin 10], [Fin 11], [Fin 12]]]"
  let ?S = "[Fin 0, Fin 1, Fin 2, Fin 3, Fin 10, Fin 11, Fin 12]"
  let ?ds = "[Fin 1, Fin 1, Fin 1, Fin 7, Fin 1, Fin 1]"
  have R: "\<forall>kcs. ranks_by_count rising_reversed kcs"
    by (simp add: rising_reversed_ranks)
  have S: "series_of ?df ''t'' = Inr ?S"
    by (simp add: series_of_def)
  have ds: "filter (\<lambda>x. \<not> isnan x) (rolling_diff ?S) = ?ds"
    unfolding rolling_diff_example by simp
  have E: "get_delta rising_reversed (\<lambda>i g. Inr []) ?df
      \<lparr> info_group_info = None, info_data = [] \<rparr>
      [Default_group] [''t''] = Inr [Default_group \<mapsto> [''t'' \<mapsto> Fin 1]]"
    by (rule get_delta_example) (rule rising_reversed_ranks)
  have mem: "''t'' \<in> set [''t'']" by simp
  from get_delta_default_is_mode[OF R E mem] obtain d
    where d: "[''t'' \<mapsto> Fin 1] ''t'' = Some d"
      and le: "\<forall>x\<in>set ?ds. count_list ?ds x \<le> count_list ?ds d"
      and h: "d = fst (hd (value_counts rising_reversed (rolling_diff ?S)))"
    unfolding S ds by auto
  from d have d1: "d = Fin 1" by simp
  with le have c: "count_list ?ds (Fin 7) \<le> count_list ?ds (Fin 1)" by simp
  from h d1 have f: "Fin 1 = fst (hd (value_counts rising_reversed (rolling_diff ?S)))"
    by simp
  have m: "np_mean ?ds = Fin 2"
    by (simp add: np_mean_def)
  from R E mem S ds c f m show ?thesis by blast
qed

subsection \<open>Series and groups too short to difference\<close>

text \<open>
  A group whose matches are fewer than two for every column is skipped: it raises
  nothing and no delta is stored for it. And a table that is returned has the entry of
  \<open>'__default'\<close>.
\<close>

lemma group_deltas_skip:
  assumes "\<forall>col\<in>set cols. \<exists>series matched. series_of df col = Inr series \<and>
             ggm (info \<lparr> info_data := series \<rparr>) g = Inr matched \<and> length matched \<le> 1"
  shows "group_deltas sort_values ggm df info g cols d = Inr d"
  using assms by (induction cols arbitrary: d) auto

lemma get_delta_has_default:
  "get_delta sort_values ggm df info gcs cols = Inr deltas \<Longrightarrow> Default_group \<in> dom deltas"
  using get_delta_default by fastforce

text \<open>
  Claim C8 says that \<open>get_delta\<close> returns a table for every input and never fails on a
  series too short to difference. The loop over the groups tests \<open>subset.size > 1\<close>;
  the loop of the default entry has no such test: on a frame of one row the
  differences are \<open>[NaN]\<close>, \<open>value_counts\<close> is empty and \<open>keys()[0]\<close> raises, with
  every sort of the counts (lemma \<open>infer_delta_no_difference\<close>).
\<close>

theorem get_delta_single_row_raises:
  "get_delta rising_reversed (\<lambda>i g. Inr []) [''t'' \<mapsto> [[Fin 0]]]
     \<lparr> info_group_info = None, info_data = [] \<rparr> [Default_group] [''t'']
   = Inl IndexError"
  by (simp add: get_delta_def series_of_def infer_delta_def value_counts_def
      rising_reversed_def)

section \<open>Properties of the BestOf ensemble\<close>

subsection \<open>The ranking\<close>

lemma adjusted_score_finite:
  "\<exists>r. (if is_nan_numeric x then score_sentinel else x) = Fin r"
  by (cases x) (simp_all add: score_sentinel_def)

lemma score_mixers_scores:
  assumes "score_mixers pcol acc ms data args = (l, Inr score_list)"
  shows "length score_list = length ms \<and>
         (\<forall>i<length ms. \<exists>p c vs. predict (ms ! i) data args = Inr p \<and> pcol p = Inr c \<and>
            acc c = Inr vs \<and>
            score_list ! i = (if is_nan_numeric (np_mean vs) then score_sentinel else np_mean vs))"
  using assms
proof (induction ms arbitrary: l score_list)
  case Nil
  then show ?case by simp
next
  case (Cons m ms)
  from Cons.prems obtain p c vs l' rest where p: "predict m data args = Inr p"
    and c: "pcol p = Inr c" and vs: "acc c = Inr vs"
    and rest: "score_mixers pcol acc ms data args = (l', Inr rest)"
    and sl: "score_list = (if is_nan_numeric (np_mean vs) then score_sentinel else np_mean vs) # rest"
    by (auto simp: Let_def split: sum.splits prod.splits)
  note IH = Cons.IH[OF rest]
  show ?case
  proof (intro conjI allI impI)
    show "length score_list = length (m # ms)" using IH sl by simp
  next
    fix i assume "i < length (m # ms)"
    then show "\<exists>p c vs. predict ((m # ms) ! i) data args = Inr p \<and> pcol p = Inr c \<and>
            acc c = Inr vs \<and>
            score_list ! i = (if is_nan_numeric (np_mean vs) then score_sentinel else np_mean vs)"
      using p c vs sl IH by (cases i) auto
  qed
qed

lemma argsort_distinct: "distinct (argsort xs)"
  by (simp add: argsort_def)

lemma argsort_set: "set (argsort xs) = {..<length xs}"
  by (auto simp: argsort_def)

lemma argsort_length: "length (argsort xs) = length xs"
  by (simp add: argsort_def)

lemma rev_argsort_descending:
  assumes "j \<le> k" and "k < length xs"
  shows "sort_rank (xs ! (rev (argsort xs) ! k)) \<le> sort_rank (xs ! (rev (argsort xs) ! j))"
proof -
  let ?f = "\<lambda>i. sort_rank (xs ! i)"
  have "sorted (map ?f (argsort xs))"
    by (simp add: argsort_def)
  then have "sorted (rev (map ?f (rev (argsort xs))))"
    by (simp add: rev_map)
  then have "map ?f (rev (argsort xs)) ! k \<le> map ?f (rev (argsort xs)) ! j"
    using assms by (intro sorted_rev_nth_mono) (simp_all add: argsort_length)
  then show ?thesis
    using assms by (simp add: argsort_length)
qed

lemma argsort_example:
  "argsort [Fin (1 / 2), Fin (- 9223372036854775808), Fin (9 / 10)] = [1, 0, 2]"
  by (simp add: argsort_def upt_rec)

lemma argsort_below_sentinel:
  "argsort [Fin (- 9223372036854775808), Fin (- 10000000000000000000)] = [1, 0]"
  by (simp add: argsort_def upt_rec)

text \<open>
  Claim C2, as stated, fails in its clause that a mixer without a finite score is
  never first: the sentinel is the finite score \<open>-2^63\<close>, and a mixer that scores
  below it ranks after the sentinel. Of two mixers scoring \<open>[NaN, -10^19]\<close> the NaN
  mixer (index 0) is ranked first.
\<close>

theorem BestOf_init_sentinel_first_counterexample:
  "(case BestOf_init Inr
           (\<lambda>c. Inr [if c = (0::nat) then NaN else Fin (- (10 ^ 19))])
           [\<lparr> mixer_name = ''Neural'', stable = True, supports_proba = False,
               predict = \<lambda>d a. Inr 0 \<rparr>,
            \<lparr> mixer_name = ''LightGBM'', stable = True, supports_proba = True,
               predict = \<lambda>d a. Inr 1 \<rparr>]
           (0::nat) \<lparr> frame_columns = [], frame_rows = [] \<rparr> (Some ''float'')
           \<lparr> all_mixers = False, predict_proba = False \<rparr> None of
      (l, Inr ens) \<Rightarrow> indexes_by_accuracy ens = [0, 1] \<and> hd (indexes_by_accuracy ens) = 0
    | (l, Inl e) \<Rightarrow> False)"
proof -
  let ?acc = "\<lambda>c. Inr [if c = (0::nat) then NaN else Fin (- (10 ^ 19))] :: error + pyfloat list"
  let ?ms = "[\<lparr> mixer_name = ''Neural'', stable = True, supports_proba = False,
               predict = \<lambda>(d::nat) (a::prediction_arguments). (Inr 0 :: error + nat) \<rparr>,
            \<lparr> mixer_name = ''LightGBM'', stable = True, supports_proba = True,
               predict = \<lambda>d a. Inr 1 \<rparr>]"
  let ?args = "\<lparr> all_mixers = False, predict_proba = False \<rparr>"
  let ?L = "[Info_accuracy ''Neural'' NaN, Warning_changed_accuracy ''Neural'' (Fin (- (2 ^ 63))),
        Info_accuracy ''LightGBM'' (Fin (- (10 ^ 19)))]"
  have sm: "score_mixers Inr ?acc ?ms 0 ?args = (?L, Inr [Fin (- (2 ^ 63)), Fin (- (10 ^ 19))])"
    by (simp add: np_mean_def score_sentinel_def Let_def)
  show ?thesis
    unfolding BestOf_init_def sm
    by (simp add: store_context_def nth_py_def argsort_below_sentinel)
qed

text \<open>
  Claim C2, amended. After a construction that succeeds, every mixer has a finite
  score, its averaged accuracy or \<open>-2^63\<close> when the average is not finite;
  \<open>indexes_by_accuracy\<close> lists every index of a mixer once, by falling score; and a
  mixer holding the score \<open>-2^63\<close> is ranked after every mixer whose score is greater
  than \<open>-2^63\<close>.
\<close>

theorem BestOf_init_ranking:
  assumes "BestOf_init pcol acc ms data frame target_dtype args analysis = (l, Inr ens)"
  shows "\<exists>rs. snd (score_mixers pcol acc ms data args) = Inr (map Fin rs) \<and>
           length rs = length ms \<and>
           (\<forall>i<length ms. \<exists>p c vs. predict (ms ! i) data args = Inr p \<and> pcol p = Inr c \<and>
              acc c = Inr vs \<and>
              Fin (rs ! i) = (if is_nan_numeric (np_mean vs) then Fin (- (2 ^ 63)) else np_mean vs)) \<and>
           distinct (indexes_by_accuracy ens) \<and>
           set (indexes_by_accuracy ens) = {..<length ms} \<and>
           (\<forall>j k. j < k \<longrightarrow> k < length ms \<longrightarrow>
              rs ! (indexes_by_accuracy ens ! k) \<le> rs ! (indexes_by_accuracy ens ! j)) \<and>
           (\<forall>a b. a < length ms \<longrightarrow> b < length ms \<longrightarrow>
              rs ! (indexes_by_accuracy ens ! a) = - (2 ^ 63) \<longrightarrow>
              - (2 ^ 63) < rs ! (indexes_by_accuracy ens ! b) \<longrightarrow> b < a)"
proof -
  from assms obtain l0 score_list where sm: "score_mixers pcol acc ms data args = (l0, Inr score_list)"
    and idx: "indexes_by_accuracy ens = rev (argsort score_list)"
    by (auto simp: BestOf_init_def Let_def split: sum.splits prod.splits)
  note S = score_mixers_scores[OF sm]
  define rs where "rs = map (\<lambda>s. case s of Fin r \<Rightarrow> r | _ \<Rightarrow> 0) score_list"
  have len: "length rs = length ms" using S by (simp add: rs_def)
  have fin: "score_list ! i = Fin (rs ! i)" if "i < length ms" for i
  proof -
    from S that obtain vs where
      "score_list ! i = (if is_nan_numeric (np_mean vs) then score_sentinel else np_mean vs)"
      by blast
    with adjusted_score_finite[of "np_mean vs"] obtain r where "score_list ! i = Fin r"
      by auto
    with that S show ?thesis by (simp add: rs_def)
  qed
  have sl: "score_list = map Fin rs"
    using S len fin by (intro nth_equalityI) simp_all
  have scores: "\<forall>i<length ms. \<exists>p c vs. predict (ms ! i) data args = Inr p \<and> pcol p = Inr c \<and>
              acc c = Inr vs \<and>
              Fin (rs ! i) = (if is_nan_numeric (np_mean vs) then Fin (- (2 ^ 63)) else np_mean vs)"
  proof (intro allI impI)
    fix i assume i: "i < length ms"
    with S obtain p c vs where p: "predict (ms ! i) data args = Inr p" and c: "pcol p = Inr c"
      and vs: "acc c = Inr vs"
      and s: "score_list ! i = (if is_nan_numeric (np_mean vs) then score_sentinel else np_mean vs)"
      by blast
    from s fin[OF i]
    have "Fin (rs ! i) = (if is_nan_numeric (np_mean vs) then Fin (- (2 ^ 63)) else np_mean vs)"
      by (simp add: score_sentinel_def)
    with p c vs show "\<exists>p c vs. predict (ms ! i) data args = Inr p \<and> pcol p = Inr c \<and>
              acc c = Inr vs \<and>
              Fin (rs ! i) = (if is_nan_numeric (np_mean vs) then Fin (- (2 ^ 63)) else np_mean vs)"
      by blast
  qed
  have n: "length score_list = length ms" using S by simp
  have inr: "rev (argsort score_list) ! k < length ms" if "k < length ms" for k
  proof -
    have "rev (argsort score_list) ! k \<in> set (argsort score_list)"
      using that n by (metis argsort_length length_rev nth_mem set_rev)
    then show ?thesis by (simp add: argsort_set n)
  qed
  have desc: "rs ! (rev (argsort score_list) ! k) \<le> rs ! (rev (argsort score_list) ! j)"
    if "j \<le> k" "k < length ms" for j k
  proof -
    from that have "sort_rank (score_list ! (rev (argsort score_list) ! k))
        \<le> sort_rank (score_list ! (rev (argsort score_list) ! j))"
      using n by (intro rev_argsort_descending) simp_all
    moreover have "j < length ms" using that by simp
    ultimately show ?thesis
      using that inr[of j] inr[of k] by (simp add: fin)
  qed
  have last: "b < a" if "a < length ms" "b < length ms"
    "rs ! (rev (argsort score_list) ! a) = - (2 ^ 63)"
    "- (2 ^ 63) < rs ! (rev (argsort score_list) ! b)" for a b
  proof (rule ccontr)
    assume "\<not> b < a"
    then have "a \<le> b" by simp
    from desc[OF this that(2)] that(3,4) show False by simp
  qed
  show ?thesis
    unfolding idx
    apply (rule exI[of _ rs])
    using sm sl len scores argsort_distinct[of score_list] argsort_set[of score_list] n desc last
    by (auto simp: less_imp_le)
qed

text \<open>
  The theorem at three mixers scoring \<open>[0.5, NaN, 0.9]\<close>: the ranking is the \<open>0.9\<close>
  mixer, the \<open>0.5\<close> mixer, the NaN mixer.
\<close>

theorem BestOf_init_ranking_witness:
  "(case BestOf_init Inr
           (\<lambda>c. Inr [if c = (0::nat) then Fin (1 / 2) else if c = 1 then NaN else Fin (9 / 10)])
           [\<lparr> mixer_name = ''Neural'', stable = True, supports_proba = False,
               predict = \<lambda>d a. Inr 0 \<rparr>,
            \<lparr> mixer_name = ''LightGBM'', stable = True, supports_proba = True,
               predict = \<lambda>d a. Inr 1 \<rparr>,
            \<lparr> mixer_name = ''NHits'', stable = False, supports_proba = False,
               predict = \<lambda>d a. Inr 2 \<rparr>]
           (0::nat) \<lparr> frame_columns = [], frame_rows = [] \<rparr> (Some ''float'')
           \<lparr> all_mixers = False, predict_proba = False \<rparr> None of
      (l, Inr ens) \<Rightarrow>
        indexes_by_accuracy ens = [2, 0, 1] \<and> distinct (indexes_by_accuracy ens) \<and>
        set (indexes_by_accuracy ens) = {..<3}
    | (l, Inl e) \<Rightarrow> False)"
proof -
  let ?acc = "\<lambda>c. Inr [if c = (0::nat) then Fin (1 / 2) else if c = 1 then NaN else Fin (9 / 10)]
      :: error + pyfloat list"
  let ?ms = "[\<lparr> mixer_name = ''Neural'', stable = True, supports_proba = False,
               predict = \<lambda>(d::nat) (a::prediction_arguments). (Inr 0 :: error + nat) \<rparr>,
            \<lparr> mixer_name = ''LightGBM'', stable = True, supports_proba = True,
               predict = \<lambda>d a. Inr 1 \<rparr>,
            \<lparr> mixer_name = ''NHits'', stable = False, supports_proba = False,
               predict = \<lambda>d a. Inr 2 \<rparr>]"
  let ?args = "\<lparr> all_mixers = False, predict_proba = False \<rparr>"
  let ?fr = "\<lparr> frame_columns = [], frame_rows = [] \<rparr>"
  let ?L = "[Info_accuracy ''Neural'' (Fin (1 / 2)), Info_accuracy ''LightGBM'' NaN,
        Warning_changed_accuracy ''LightGBM'' (Fin (- (2 ^ 63))), Info_accuracy ''NHits'' (Fin (9 / 10))]"
  let ?E = "\<lparr> mixers = ?ms, indexes_by_accuracy = [2, 0, 1], self_supports_proba = False,
              self_context = [] \<rparr>"
  have sm: "score_mixers Inr ?acc ?ms 0 ?args =
      (?L, Inr [Fin (1 / 2), Fin (- (2 ^ 63)), Fin (9 / 10)])"
    by (simp add: np_mean_def score_sentinel_def Let_def)
  have init: "BestOf_init Inr ?acc ?ms 0 ?fr (Some ''float'') ?args None =
      (?L @ [Info_picked_best ''NHits''], Inr ?E)"
    unfolding BestOf_init_def sm
    by (simp add: store_context_def nth_py_def argsort_example)
  from BestOf_init_ranking[OF init] obtain rs :: "real list"
    where d: "distinct (indexes_by_accuracy ?E)"
      and s: "set (indexes_by_accuracy ?E) = {..<length ?ms}"
    by (elim exE conjE)
  have len: "length ?ms = 3" by simp
  have i: "indexes_by_accuracy ?E = [2, 0, 1]" by simp
  show ?thesis
    unfolding init prod.case sum.case using i d s[unfolded len] by (intro conjI)
qed

subsection \<open>Prediction in ranked order\<close>

lemma call_ranked_unstable_failure:
  assumes "i < length ms" and "predict (ms ! i) ds args = Inl e" and "\<not> stable (ms ! i)"
  shows "call_ranked ms (i # idx) ds args =
           apfst ((#) (Warning_unstable_failed (mixer_name (ms ! i)) e))
             (call_ranked ms idx ds args)"
  using assms by (simp add: nth_py_def apfst_def map_prod_def)

lemma call_ranked_failover:
  assumes "\<forall>i\<in>set (take k idx). i < length ms \<and> \<not> stable (ms ! i) \<and> isl (predict (ms ! i) ds args)"
    and "k < length idx" and "idx ! k < length ms"
  shows "call_ranked ms idx ds args =
           apfst ((@) (map (\<lambda>i. Warning_unstable_failed (mixer_name (ms ! i))
                                 (projl (predict (ms ! i) ds args))) (take k idx)))
             (case predict (ms ! (idx ! k)) ds args of
                Inr p \<Rightarrow> ([], Inr (Frame p))
              | Inl e \<Rightarrow>
                  if stable (ms ! (idx ! k)) then ([], Inl e)
                  else apfst ((#) (Warning_unstable_failed (mixer_name (ms ! (idx ! k))) e))
                         (call_ranked ms (drop (Suc k) idx) ds args))"
  using assms
proof (induction idx arbitrary: k)
  case Nil
  then show ?case by simp
next
  case (Cons i idx)
  show ?case
  proof (cases k)
    case 0
    with Cons.prems show ?thesis
      by (simp add: nth_py_def apfst_def map_prod_def split: sum.splits)
  next
    case (Suc k')
    with Cons.prems have i: "i < length ms" "\<not> stable (ms ! i)" "isl (predict (ms ! i) ds args)"
      by auto
    from i(3) obtain e where e: "predict (ms ! i) ds args = Inl e"
      by (cases "predict (ms ! i) ds args") auto
    have p1: "\<forall>i\<in>set (take k' idx). i < length ms \<and> \<not> stable (ms ! i) \<and>
        isl (predict (ms ! i) ds args)"
      using Cons.prems(1) Suc by simp
    have p2: "k' < length idx" and p3: "idx ! k' < length ms"
      using Cons.prems(2,3) Suc by simp_all
    note IH = Cons.IH[OF p1 p2 p3]
    show ?thesis
      unfolding Suc call_ranked_unstable_failure[OF i(1) e i(2)] IH using e
      by (simp add: apfst_def map_prod_def case_prod_beta split: sum.splits)
  qed
qed

text \<open>
  Claim C3. In the default mode, when the first \<open>k\<close> mixers of the ranking are unstable
  and raise, each failure leaves one warning, in ranked order, and the mixer ranked
  next decides: its frame is returned if it succeeds; its exception is the result,
  unchanged, if it raises and is stable; and if it raises and is unstable a warning is
  logged and the call goes on with the rest of the ranking.
\<close>

theorem BestOf_call_failover:
  assumes "\<not> all_mixers args"
    and "k < length (indexes_by_accuracy self)"
    and "indexes_by_accuracy self ! k < length (mixers self)"
    and "\<forall>i\<in>set (take k (indexes_by_accuracy self)).
           i < length (mixers self) \<and> \<not> stable (mixers self ! i) \<and>
           isl (predict (mixers self ! i) ds args)"
  shows "BestOf_call pcol self ds args =
           apfst ((@) (map (\<lambda>i. Warning_unstable_failed (mixer_name (mixers self ! i))
                                 (projl (predict (mixers self ! i) ds args)))
                         (take k (indexes_by_accuracy self))))
             (case predict (mixers self ! (indexes_by_accuracy self ! k)) ds args of
                Inr p \<Rightarrow> ([], Inr (Frame p))
              | Inl e \<Rightarrow>
                  if stable (mixers self ! (indexes_by_accuracy self ! k)) then ([], Inl e)
                  else apfst ((#) (Warning_unstable_failed
                                     (mixer_name (mixers self ! (indexes_by_accuracy self ! k))) e))
                         (call_ranked (mixers self) (drop (Suc k) (indexes_by_accuracy self))
                            ds args))"
  using assms(1) call_ranked_failover[OF assms(4,2,3)]
  by (simp add: BestOf_call_def)

text \<open>
  The theorem at a ranking \<open>[2, 0, 1]\<close> whose top mixer is unstable and raises (the
  frame of the mixer ranked second is returned, after one warning), and at a ranking
  whose top mixer is stable and raises (its exception is the result).
\<close>

theorem BestOf_call_failover_witness:
  "BestOf_call Inr
     \<lparr> mixers =
         [\<lparr> mixer_name = ''Neural'', stable = True, supports_proba = False,
             predict = \<lambda>d a. Inr 0 \<rparr>,
          \<lparr> mixer_name = ''LightGBM'', stable = True, supports_proba = True,
             predict = \<lambda>d a. Inr 1 \<rparr>,
          \<lparr> mixer_name = ''NHits'', stable = False, supports_proba = False,
             predict = \<lambda>d a. if d = (0::nat) then Inr 2 else Inl (PyException ''failed'') \<rparr>],
       indexes_by_accuracy = [2, 0, 1], self_supports_proba = False, self_context = [] \<rparr>
     1 \<lparr> all_mixers = False, predict_proba = False \<rparr>
     = ([Warning_unstable_failed ''NHits'' (PyException ''failed'')], Inr (Frame (0::nat))) \<and>
   BestOf_call Inr
     \<lparr> mixers =
         [\<lparr> mixer_name = ''Neural'', stable = True, supports_proba = False,
             predict = \<lambda>d a. if d = (0::nat) then Inr 0 else Inl (PyException ''failed'') \<rparr>,
          \<lparr> mixer_name = ''LightGBM'', stable = True, supports_proba = True,
             predict = \<lambda>d a. Inr 1 \<rparr>],
       indexes_by_accuracy = [0, 1], self_supports_proba = False, self_context = [] \<rparr>
     1 \<lparr> all_mixers = False, predict_proba = False \<rparr>
     = ([], Inl (PyException ''failed'') :: error + (nat, nat) call_result)"
proof -
  let ?args = "\<lparr> all_mixers = False, predict_proba = False \<rparr>"
  let ?A = "\<lparr> mixers =
         [\<lparr> mixer_name = ''Neural'', stable = True, supports_proba = False,
             predict = \<lambda>(d::nat) (a::prediction_arguments). (Inr 0 :: error + nat) \<rparr>,
          \<lparr> mixer_name = ''LightGBM'', stable = True, supports_proba = True,
             predict = \<lambda>d a. Inr 1 \<rparr>,
          \<lparr> mixer_name = ''NHits'', stable = False, supports_proba = False,
             predict = \<lambda>d a. if d = (0::nat) then Inr 2 else Inl (PyException ''failed'') \<rparr>],
       indexes_by_accuracy = [2, 0, 1], self_supports_proba = False, self_context = [] \<rparr>"
  let ?B = "\<lparr> mixers =
         [\<lparr> mixer_name = ''Neural'', stable = True, supports_proba = False,
             predict = \<lambda>(d::nat) (a::prediction_arguments).
               if d = (0::nat) then (Inr 0 :: error + nat) else Inl (PyException ''failed'') \<rparr>,
          \<lparr> mixer_name = ''LightGBM'', stable = True, supports_proba = True,
             predict = \<lambda>d a. Inr 1 \<rparr>],
       indexes_by_accuracy = [0, 1], self_supports_proba = False, self_context = [] \<rparr>"
  have a1: "\<not> all_mixers ?args" by simp
  have a2: "1 < length (indexes_by_accuracy ?A)" by simp
  have a3: "indexes_by_accuracy ?A ! 1 < length (mixers ?A)" by simp
  have a4: "\<forall>i\<in>set (take 1 (indexes_by_accuracy ?A)).
           i < length (mixers ?A) \<and> \<not> stable (mixers ?A ! i) \<and>
           isl (predict (mixers ?A ! i) 1 ?args)"
    by simp
  have A: "BestOf_call Inr ?A 1 ?args =
      ([Warning_unstable_failed ''NHits'' (PyException ''failed'')], Inr (Frame (0::nat)))"
    using BestOf_call_failover[OF a1 a2 a3 a4, of Inr] by simp
  have b2: "0 < length (indexes_by_accuracy ?B)" by simp
  have b3: "indexes_by_accuracy ?B ! 0 < length (mixers ?B)" by simp
  have b4: "\<forall>i\<in>set (take 0 (indexes_by_accuracy ?B)).
           i < length (mixers ?B) \<and> \<not> stable (mixers ?B ! i) \<and>
           isl (predict (mixers ?B ! i) 1 ?args)"
    by simp
  have B: "BestOf_call Inr ?B 1 ?args =
      ([], Inl (PyException ''failed'') :: error + (nat, nat) call_result)"
    using BestOf_call_failover[OF a1 b2 b3 b4, of Inr] by simp
  from A B show ?thesis by (intro conjI)
qed

subsection \<open>A ranking with no usable mixer\<close>

text \<open>When every ranked mixer is unstable and raises, the loop ends and the call returns \<open>None\<close>.\<close>

lemma call_ranked_exhausted:
  assumes "\<forall>i\<in>set idx. i < length ms \<and> \<not> stable (ms ! i) \<and> isl (predict (ms ! i) ds args)"
  shows "snd (call_ranked ms idx ds args) = Inr PyNone"
  using assms
proof (induction idx)
  case Nil
  show ?case by simp
next
  case (Cons i idx)
  then obtain e where e: "predict (ms ! i) ds args = Inl e"
    by (cases "predict (ms ! i) ds args") auto
  with Cons.prems have i: "i < length ms" "predict (ms ! i) ds args = Inl e" "\<not> stable (ms ! i)"
    by auto
  from Cons show ?case
    unfolding call_ranked_unstable_failure[OF i] by simp
qed

text \<open>
  Claim C4 says that the call then raises an error that names the failure. It does
  not: an ensemble built over one unstable mixer that predicts on the validation set
  and raises on the set to predict logs the warning and returns \<open>None\<close>, although
  the method is declared to return a data frame.
\<close>

theorem BestOf_call_exhausted_returns_None:
  "(case BestOf_init Inr (\<lambda>c. Inr [Fin (9 / 10)])
           [\<lparr> mixer_name = ''NHits'', stable = False, supports_proba = False,
               predict = \<lambda>d a. if d = (0::nat) then Inr (2::nat) else Inl (PyException ''failed'') \<rparr>]
           0 \<lparr> frame_columns = [], frame_rows = [] \<rparr> (Some ''float'')
           \<lparr> all_mixers = False, predict_proba = False \<rparr> None of
      (l, Inr ens) \<Rightarrow>
        BestOf_call Inr ens 1 \<lparr> all_mixers = False, predict_proba = False \<rparr> =
          ([Warning_unstable_failed ''NHits'' (PyException ''failed'')],
           Inr (PyNone :: (nat, nat) call_result))
    | (l, Inl e) \<Rightarrow> False)"
  by (simp add: BestOf_init_def np_mean_def Let_def store_context_def nth_py_def argsort_def
      BestOf_call_def)

end
